theory Spec2Isabelle
  imports Main "HOL-Library.AList" "HOL-Library.Sublist"
begin

section \<open>Data model (src/api/types.ts)\<close>

text \<open>
  Attribute values are whatever \<^verbatim>\<open>JSON.parse\<close> produced (TypeScript type \<^verbatim>\<open>any\<close>).
  An object is an association list that lists the object's own properties in
  JavaScript's enumeration order; the keys of such a list are distinct. Numbers are
  restricted to integers.
\<close>

datatype json =
    JNull
  | JBool bool
  | JNum int
  | JStr string
  | JArr "json list"
  | JObj "(string \<times> json) list"

record entity =
  entity_id :: string
  state :: string
  attributes :: "(string \<times> json) list"
  last_changed :: string
  last_updated :: string
  context_id :: string
  context_parent_id :: "string option"
  context_user_id :: "string option"

text \<open>JavaScript truthiness of a parsed JSON value (\<^verbatim>\<open>!v\<close> is its negation).\<close>

fun truthy :: "json \<Rightarrow> bool" where
  "truthy JNull = False"
| "truthy (JBool b) = b"
| "truthy (JNum n) = (n \<noteq> 0)"
| "truthy (JStr s) = (s \<noteq> [])"
| "truthy (JArr xs) = True"
| "truthy (JObj kvs) = True"

text \<open>Property read \<^verbatim>\<open>obj.key\<close>: \<open>None\<close> is JavaScript's \<^verbatim>\<open>undefined\<close>.\<close>

definition getProp :: "(string \<times> json) list \<Rightarrow> string \<Rightarrow> json option" where
  "getProp obj k = map_of obj k"

text \<open>Property write \<^verbatim>\<open>obj.key = v\<close>: replaces in place, or appends a new property.\<close>

definition setProp :: "string \<Rightarrow> json \<Rightarrow> (string \<times> json) list \<Rightarrow> (string \<times> json) list" where
  "setProp k v obj = AList.update k v obj"

text \<open>\<^verbatim>\<open>Object.assign(target, source)\<close>: writes the source's properties in order.\<close>

definition objectAssign ::
  "(string \<times> json) list \<Rightarrow> (string \<times> json) list \<Rightarrow> (string \<times> json) list" where
  "objectAssign target source = foldl (\<lambda>acc kv. setProp (fst kv) (snd kv) acc) target source"

subsection \<open>Decimal rendering and \<^verbatim>\<open>JSON.stringify\<close>\<close>

definition digitChar :: "nat \<Rightarrow> char" where
  "digitChar d = char_of (48 + d)"

fun showNat :: "nat \<Rightarrow> string" where
  "showNat n = (if n < 10 then [digitChar n] else showNat (n div 10) @ [digitChar (n mod 10)])"

declare showNat.simps [simp del]

definition showInt :: "int \<Rightarrow> string" where
  "showInt i = (if i < 0 then CHR ''-'' # showNat (nat (- i)) else showNat (nat i))"

definition hexChar :: "nat \<Rightarrow> char" where
  "hexChar d = (if d < 10 then char_of (48 + d) else char_of (87 + d))"

text \<open>
  Escaping of one character inside a JSON string literal: the quote, the backslash,
  the five short escapes, and \<^verbatim>\<open>\u00XX\<close> for the other control characters.
\<close>

definition escapeChar :: "char \<Rightarrow> string" where
  "escapeChar c =
     (let n = (of_char c :: nat) in
      if n = 34 then [char_of (92::nat), char_of (34::nat)]
      else if n = 92 then [char_of (92::nat), char_of (92::nat)]
      else if n = 8 then [char_of (92::nat), CHR ''b'']
      else if n = 12 then [char_of (92::nat), CHR ''f'']
      else if n = 10 then [char_of (92::nat), CHR ''n'']
      else if n = 13 then [char_of (92::nat), CHR ''r'']
      else if n = 9 then [char_of (92::nat), CHR ''t'']
      else if n < 32 then
        [char_of (92::nat), CHR ''u'', CHR ''0'', CHR ''0'', hexChar (n div 16), hexChar (n mod 16)]
      else [c])"

definition quoteString :: "string \<Rightarrow> string" where
  "quoteString s = char_of (34::nat) # concat (map escapeChar s) @ [char_of (34::nat)]"

fun joinWith :: "string \<Rightarrow> string list \<Rightarrow> string" where
  "joinWith sep [] = []"
| "joinWith sep [x] = x"
| "joinWith sep (x # y # ys) = x @ sep @ joinWith sep (y # ys)"

fun stringify :: "json \<Rightarrow> string" where
  "stringify JNull = ''null''"
| "stringify (JBool b) = (if b then ''true'' else ''false'')"
| "stringify (JNum n) = showInt n"
| "stringify (JStr s) = quoteString s"
| "stringify (JArr xs) = ''['' @ joinWith '','' (map stringify xs) @ '']''"
| "stringify (JObj kvs) =
     ''{'' @ joinWith '','' (map (\<lambda>kv. quoteString (fst kv) @ '':'' @ stringify (snd kv)) kvs) @ ''}''"

section \<open>Synchronization facade: the entity table (src/contexts/HomeAssistantContext.tsx)\<close>

text \<open>\<^verbatim>\<open>Array.prototype.findIndex\<close>; \<open>None\<close> is the result \<^verbatim>\<open>-1\<close>.\<close>

fun findIndex :: "('a \<Rightarrow> bool) \<Rightarrow> 'a list \<Rightarrow> nat option" where
  "findIndex P [] = None"
| "findIndex P (x # xs) =
     (if P x then Some 0 else (case findIndex P xs of None \<Rightarrow> None | Some i \<Rightarrow> Some (Suc i)))"

text \<open>
  \<^verbatim>\<open>handleEntityStateChange(entityId, newState, oldState)\<close> applied to the previous
  table, as the functional updater passed to \<^verbatim>\<open>setEntities\<close> does. A \<^verbatim>\<open>null\<close>
  entity is \<open>None\<close>.
\<close>

definition handleEntityStateChange ::
  "string \<Rightarrow> entity option \<Rightarrow> entity option \<Rightarrow> entity list \<Rightarrow> entity list" where
  "handleEntityStateChange entityId newState oldState prevEntities =
     (case newState of
        None \<Rightarrow> prevEntities
      | Some n \<Rightarrow>
          (case findIndex (\<lambda>e. entity_id e = entityId) prevEntities of
             Some index \<Rightarrow> prevEntities[index := n]
           | None \<Rightarrow> prevEntities @ [n]))"

text \<open>\<^verbatim>\<open>getEntity\<close>: \<^verbatim>\<open>entities.find(entity => entity.entity_id === entityId)\<close>.\<close>

definition getEntity :: "entity list \<Rightarrow> string \<Rightarrow> entity option" where
  "getEntity ents entityId = find (\<lambda>e. entity_id e = entityId) ents"

text \<open>\<^verbatim>\<open>getEntitiesByDomain\<close>.\<close>

definition getEntitiesByDomain :: "entity list \<Rightarrow> string \<Rightarrow> entity list" where
  "getEntitiesByDomain ents domain = filter (\<lambda>e. prefix (domain @ ''.'') (entity_id e)) ents"

text \<open>
  A change notification as the transports deliver it: the entity id, the new entity
  or null, the previous entity or null.
\<close>

record notification =
  n_entityId :: string
  n_newState :: "entity option"
  n_oldState :: "entity option"



section \<open>Connection states (src/api/homeAssistantWebSocket.ts)\<close>

datatype connection_state =
  CLOSED | CONNECTING | AUTHENTICATING | CONNECTED | RECONNECTING | ERROR

section \<open>Facade operations used by the scene engine\<close>

text \<open>
  A transport call either resolves with a value (\<open>Inr\<close>) or rejects with an
  \<^verbatim>\<open>Error\<close> whose message is given (\<open>Inl\<close>).
\<close>

type_synonym 'a response = "string + 'a"

record EntityState =
  es_entityId :: string
  es_state :: string
  es_attributes :: "(string \<times> json) list"

record ActiveSceneState =
  as_sceneId :: string
  as_originalStates :: "EntityState list"

text \<open>
  Effects in program order: calls that reach the transport, updates of the
  active-scene table, and console output.
\<close>

datatype effect =
    ApiGetStates
  | ApiCallService string string "(string \<times> json) list"
  | SetActiveScene string ActiveSceneState
  | DeleteActiveScene string
  | ConsoleError string string
  | ConsoleWarn string

text \<open>
  The React state of the two providers: \<open>api\<close> tells whether an API instance is set,
  \<open>error\<close> is the surfaced error string, \<open>entities\<close> the entity table and
  \<open>activeScenes\<close> the active scene records. \<open>trace\<close> collects the effects.
\<close>

record app =
  api :: bool
  isConnected :: bool
  error :: "string option"
  entities :: "entity list"
  activeScenes :: "string \<rightharpoonup> ActiveSceneState"
  trace :: "effect list"

text \<open>
  The functions of a render close over that render's state values. In the
  definitions below \<open>c\<close> is the state the closures were created from and \<open>s\<close> the
  current state, which the state setters update.
\<close>

definition refreshEntities :: "app \<Rightarrow> entity list response \<Rightarrow> app \<Rightarrow> entity list response \<times> app" where
  "refreshEntities c resp s =
     (if \<not> api c \<or> \<not> isConnected c then (Inr (entities c), s)
      else
        (case resp of
           Inr newEntities \<Rightarrow>
             (Inr newEntities, s\<lparr>entities := newEntities, trace := trace s @ [ApiGetStates]\<rparr>)
         | Inl m \<Rightarrow> (Inl m, s\<lparr>error := Some m, trace := trace s @ [ApiGetStates]\<rparr>)))"

text \<open>
  What the transport answers to one \<^verbatim>\<open>callService\<close>: the reply to the call, the
  connection state the transport reports afterwards, and the reply to the
  follow-up fetch.
\<close>

record call_env =
  callResp :: "json response"
  connAfter :: connection_state
  refreshResp :: "entity list response"

text \<open>
  \<^verbatim>\<open>callService\<close> awaits the call it hands to the transport. \<open>callServiceIssued\<close> is the
  part before that await: the message of the error thrown when no API instance is
  set, or the state in which the call has been handed over. \<open>callServiceSettled\<close> is
  the part that runs once the call has settled.
\<close>

definition callServiceIssued ::
  "app \<Rightarrow> string \<Rightarrow> string \<Rightarrow> (string \<times> json) list \<Rightarrow> app \<Rightarrow> string + app" where
  "callServiceIssued c domain service data s =
     (if \<not> api c then Inl ''API not initialized''
      else Inr (s\<lparr>trace := trace s @ [ApiCallService domain service data]\<rparr>))"

definition callServiceSettled :: "app \<Rightarrow> call_env \<Rightarrow> app \<Rightarrow> json response \<times> app" where
  "callServiceSettled c env s1 =
     (case callResp env of
        Inl m \<Rightarrow> (Inl m, s1\<lparr>error := Some m\<rparr>)
      | Inr result \<Rightarrow>
          (if connAfter env \<noteq> CONNECTED then
             (case refreshEntities c (refreshResp env) s1 of
                (Inl m, s2) \<Rightarrow> (Inl m, s2\<lparr>error := Some m\<rparr>)
              | (Inr es, s2) \<Rightarrow> (Inr result, s2))
           else (Inr result, s1)))"

definition callService ::
  "app \<Rightarrow> string \<Rightarrow> string \<Rightarrow> (string \<times> json) list \<Rightarrow> call_env \<Rightarrow> app \<Rightarrow> json response \<times> app" where
  "callService c domain service data env s =
     (case callServiceIssued c domain service data s of
        Inl m \<Rightarrow> (Inl m, s)
      | Inr s1 \<Rightarrow> callServiceSettled c env s1)"

text \<open>
  \<^verbatim>\<open>handleApiError\<close> of the facade, the callback it registers as error observer of the
  transport.
\<close>

definition facade_handleApiError :: "string \<Rightarrow> app \<Rightarrow> app" where
  "facade_handleApiError m s =
     s\<lparr>error := Some m, trace := trace s @ [ConsoleError ''Home Assistant API error:'' m]\<rparr>"

section \<open>Scene engine (src/contexts/SceneContext.tsx)\<close>

text \<open>\<^verbatim>\<open>Object.keys\<close> of a parsed JSON value.\<close>

fun objectKeys :: "json \<Rightarrow> string list" where
  "objectKeys (JObj kvs) = map fst kvs"
| "objectKeys (JArr xs) = map showNat [0..<length xs]"
| "objectKeys (JStr s) = map showNat [0..<length s]"
| "objectKeys v = []"

text \<open>Each helper returns its result together with the console warnings it prints.\<close>

definition getSceneEntities :: "entity \<Rightarrow> string list \<times> effect list" where
  "getSceneEntities scene =
     (case getProp (attributes scene) ''entities'' of
        None \<Rightarrow> ([], [ConsoleWarn (''Scene has no entities defined: '' @ entity_id scene)])
      | Some v \<Rightarrow>
          (if \<not> truthy v
           then ([], [ConsoleWarn (''Scene has no entities defined: '' @ entity_id scene)])
           else (objectKeys v, [])))"

definition copyIfDefined ::
  "string \<Rightarrow> (string \<times> json) list \<Rightarrow> (string \<times> json) list \<Rightarrow> (string \<times> json) list" where
  "copyIfDefined k source target =
     (case getProp source k of None \<Rightarrow> target | Some v \<Rightarrow> setProp k v target)"

text \<open>
  The three conditional copies of \<^verbatim>\<open>brightness\<close>, \<^verbatim>\<open>color_temp\<close> and \<^verbatim>\<open>rgb_color\<close>, in
  that order; the capture and the restoration of a light both make them.
\<close>

definition copyLightAttributes ::
  "(string \<times> json) list \<Rightarrow> (string \<times> json) list \<Rightarrow> (string \<times> json) list" where
  "copyLightAttributes source target =
     copyIfDefined ''rgb_color'' source
       (copyIfDefined ''color_temp'' source
          (copyIfDefined ''brightness'' source target))"

definition captureEntityState :: "entity list \<Rightarrow> string \<Rightarrow> EntityState \<times> effect list" where
  "captureEntityState ents entityId =
     (case getEntity ents entityId of
        None \<Rightarrow>
          (\<lparr>es_entityId = entityId, es_state = ''unknown'', es_attributes = []\<rparr>,
           [ConsoleWarn (''Entity '' @ entityId @ '' not found when capturing state'')])
      | Some e \<Rightarrow>
          (\<lparr>es_entityId = entityId, es_state = state e,
            es_attributes =
              (if prefix ''light.'' entityId
               then copyLightAttributes (attributes e) []
               else objectAssign [] (attributes e))\<rparr>,
           []))"

definition captureEntityStates :: "entity list \<Rightarrow> string list \<Rightarrow> EntityState list \<times> effect list" where
  "captureEntityStates ents entityIds =
     (let rs = map (captureEntityState ents) entityIds
      in (map fst rs, concat (map snd rs)))"

definition isSceneActive :: "app \<Rightarrow> string \<Rightarrow> bool" where
  "isSceneActive s sid = (activeScenes s sid \<noteq> None)"

text \<open>The \<^verbatim>\<open>catch\<close> block of \<^verbatim>\<open>activateScene\<close>.\<close>

definition activateFailed :: "string \<Rightarrow> string \<Rightarrow> app \<Rightarrow> app" where
  "activateFailed sid m s =
     s\<lparr>activeScenes := (activeScenes s)(sid := None),
       trace := trace s @ [ConsoleError ''Failed to activate scene:'' m, DeleteActiveScene sid]\<rparr>"

text \<open>
  What the transport answers during one activation: the reply to the fetch of
  \<^verbatim>\<open>refreshEntities\<close> and the answers around the scene call.
\<close>

record activate_env =
  getStatesResp :: "entity list response"
  sceneCall :: call_env

text \<open>
  \<^verbatim>\<open>activateScene\<close> as created by the render with state \<open>c\<close> and started in that state.
  The scene entity and the snapshots are read through \<^verbatim>\<open>getEntity\<close> of that render, so
  from \<open>entities c\<close>, also after the refresh. \<open>activatePrepared\<close> is the part before the
  call of \<^verbatim>\<open>callService\<close>: the error thrown (its message and the state at that moment),
  or the state in which \<^verbatim>\<open>callService\<close> is called.
\<close>

definition activatePrepared :: "string \<Rightarrow> activate_env \<Rightarrow> app \<Rightarrow> (string \<times> app) + app" where
  "activatePrepared sid env c =
     (case getEntity (entities c) sid of
        None \<Rightarrow> Inl (''Scene '' @ sid @ '' not found'', c)
      | Some sceneEntity \<Rightarrow>
          (let affectedEntityIds = fst (getSceneEntities sceneEntity);
               s1 = c\<lparr>trace := trace c @ snd (getSceneEntities sceneEntity)\<rparr>
           in case refreshEntities c (getStatesResp env) s1 of
                (Inl m, s2) \<Rightarrow> Inl (m, s2)
              | (Inr es, s2) \<Rightarrow>
                  (let originalStates = fst (captureEntityStates (entities c) affectedEntityIds);
                       r = \<lparr>as_sceneId = sid, as_originalStates = originalStates\<rparr>
                   in Inr (s2\<lparr>activeScenes := (activeScenes s2)(sid \<mapsto> r),
                              trace := trace s2
                                @ snd (captureEntityStates (entities c) affectedEntityIds)
                                @ [SetActiveScene sid r]\<rparr>))))"

text \<open>The run of \<^verbatim>\<open>activateScene\<close> in which the scene call settles.\<close>

definition activateScene :: "string \<Rightarrow> activate_env \<Rightarrow> app \<Rightarrow> app" where
  "activateScene sid env c =
     (case activatePrepared sid env c of
        Inl (m, s) \<Rightarrow> activateFailed sid m s
      | Inr s3 \<Rightarrow>
          (case callService c ''scene'' ''turn_on'' [(''entity_id'', JStr sid)] (sceneCall env) s3 of
             (Inl m, s4) \<Rightarrow> activateFailed sid m s4
           | (Inr res, s4) \<Rightarrow> s4))"

text \<open>
  The run of \<^verbatim>\<open>activateScene\<close> in which the transport never settles the scene call:
  the function stays at the await inside \<^verbatim>\<open>callService\<close>, and neither the rest of the
  \<^verbatim>\<open>try\<close> block nor the \<^verbatim>\<open>catch\<close> block runs.
\<close>

definition activateSceneUnsettled :: "string \<Rightarrow> activate_env \<Rightarrow> app \<Rightarrow> app" where
  "activateSceneUnsettled sid env c =
     (case activatePrepared sid env c of
        Inl (m, s) \<Rightarrow> activateFailed sid m s
      | Inr s3 \<Rightarrow>
          (case callServiceIssued c ''scene'' ''turn_on'' [(''entity_id'', JStr sid)] s3 of
             Inl m \<Rightarrow> activateFailed sid m s3
           | Inr s4 \<Rightarrow> s4))"

text \<open>\<^verbatim>\<open>entityId.split('.')[0]\<close>.\<close>

definition domainOf :: "string \<Rightarrow> string" where
  "domainOf entityId = takeWhile (\<lambda>ch. ch \<noteq> CHR ''.'') entityId"

text \<open>
  The service call that restores one captured entity, if any: domain, service and
  service data. A property whose value is \<^verbatim>\<open>undefined\<close> is not part of the data.
\<close>

definition restoreCall :: "EntityState \<Rightarrow> (string \<times> string \<times> (string \<times> json) list) option" where
  "restoreCall es =
     (let domain = domainOf (es_entityId es); ident = (''entity_id'', JStr (es_entityId es)) in
      if domain = ''light'' then
        (if es_state es = ''on''
         then Some (domain, ''turn_on'',
                copyLightAttributes (es_attributes es) [ident, (''transition'', JNum 1)])
         else Some (domain, ''turn_off'', [ident, (''transition'', JNum 1)]))
      else if domain = ''switch'' \<or> domain = ''input_boolean'' then
        Some (domain, if es_state es = ''on'' then ''turn_on'' else ''turn_off'', [ident])
      else if domain = ''cover'' then
        (if es_state es = ''open'' \<or> es_state es = ''opening''
         then Some (domain, ''set_cover_position'',
                ident # (case getProp (es_attributes es) ''current_position'' of
                           None \<Rightarrow> [] | Some v \<Rightarrow> [(''position'', v)]))
         else Some (domain, ''close_cover'', [ident]))
      else if es_state es = ''on'' then Some (domain, ''turn_on'', [ident])
      else if es_state es = ''off'' then Some (domain, ''turn_off'', [ident])
      else None)"

definition restoreOne :: "app \<Rightarrow> EntityState \<Rightarrow> call_env \<Rightarrow> app \<Rightarrow> app" where
  "restoreOne c es env s =
     (case restoreCall es of
        None \<Rightarrow> s
      | Some (domain, service, data) \<Rightarrow>
          (case callService c domain service data env s of
             (Inl m, s') \<Rightarrow>
               s'\<lparr>trace := trace s' @ [ConsoleError (''Failed to restore '' @ es_entityId es @ '':'') m]\<rparr>
           | (Inr res, s') \<Rightarrow> s'))"

text \<open>The restoration loop; \<open>envs i\<close> is what the transport answers for the \<open>i\<close>-th entry.\<close>

fun restoreAll :: "app \<Rightarrow> EntityState list \<Rightarrow> (nat \<Rightarrow> call_env) \<Rightarrow> nat \<Rightarrow> app \<Rightarrow> app" where
  "restoreAll c [] envs i s = s"
| "restoreAll c (es # rest) envs i s = restoreAll c rest envs (Suc i) (restoreOne c es (envs i) s)"

text \<open>
  \<^verbatim>\<open>deactivateScene\<close> as created by the render with state \<open>c\<close> and started in that state:
  the record is read from \<open>activeScenes c\<close>.
\<close>

definition deactivateScene :: "string \<Rightarrow> (nat \<Rightarrow> call_env) \<Rightarrow> app \<Rightarrow> app" where
  "deactivateScene sid envs c =
     (case activeScenes c sid of
        None \<Rightarrow> c
      | Some activeScene \<Rightarrow>
          restoreAll c (as_originalStates activeScene) envs 0
            (c\<lparr>activeScenes := (activeScenes c)(sid := None),
               trace := trace c @ [DeleteActiveScene sid]\<rparr>))"

definition toggleScene :: "string \<Rightarrow> activate_env \<Rightarrow> (nat \<Rightarrow> call_env) \<Rightarrow> app \<Rightarrow> app" where
  "toggleScene sid env envs c =
     (if isSceneActive c sid then deactivateScene sid envs c else activateScene sid env c)"

text \<open>The calls of a trace that reached the transport's \<^verbatim>\<open>callService\<close>.\<close>

fun isServiceCall :: "effect \<Rightarrow> bool" where
  "isServiceCall (ApiCallService d sv data) = True"
| "isServiceCall e = False"

definition serviceCalls :: "effect list \<Rightarrow> effect list" where
  "serviceCalls tr = filter isServiceCall tr"

definition callEffect :: "string \<times> string \<times> (string \<times> json) list \<Rightarrow> effect" where
  "callEffect x = (case x of (d, sv, data) \<Rightarrow> ApiCallService d sv data)"

section \<open>Push transport (src/api/homeAssistantWebSocket.ts)\<close>

text \<open>\<^verbatim>\<open>WebSocket.readyState\<close>.\<close>

datatype ready_state = RS_CONNECTING | RS_OPEN | RS_CLOSING | RS_CLOSED

text \<open>
  A promise is pending, fulfilled with a value (\<open>None\<close> is \<^verbatim>\<open>undefined\<close>), or rejected
  with an error whose message is given. A settled promise never changes again.
\<close>

datatype promise_state = Pending | Fulfilled "json option" | Rejected string

text \<open>
  An incoming message after \<^verbatim>\<open>JSON.parse\<close>, by its \<^verbatim>\<open>type\<close> field. A result carries
  the id, the success flag, the result and the error (code and message), an event its
  event type and data.
\<close>

datatype ws_message =
    AuthRequired
  | AuthOk
  | AuthInvalid string
  | Result nat bool "json option" "(string \<times> string) option"
  | Event string notification
  | Pong
  | Other string

text \<open>What \<^verbatim>\<open>socket.send\<close> was given.\<close>

datatype ws_out =
    OutAuth string
  | OutCommand nat string "(string \<times> json) list"
  | OutPing nat

text \<open>
  Observers are callbacks; each registered callback has a number, and every call of
  a callback is recorded with its arguments. Callbacks return normally.
\<close>

datatype callback_call =
    ConnectionStateCb nat connection_state
  | ErrorCb nat string
  | StateChangedCb nat string "entity option" "entity option"

text \<open>
  The fields of \<^verbatim>\<open>HomeAssistantWebSocketApi\<close>. \<open>socket\<close> is \<open>None\<close> for \<^verbatim>\<open>null\<close> and
  otherwise the ready state of the socket the field refers to. A timer field holds
  the delay of the pending timer. \<open>pendingCommands\<close> maps a message id to the promise
  its stored callback resolves. \<open>promises\<close>, \<open>sent\<close> and \<open>notified\<close> record the
  promises created, the messages sent and the observer calls made.
\<close>

record ws =
  baseUrl :: string
  accessToken :: string
  socket :: "ready_state option"
  connectionState :: connection_state
  messageId :: nat
  pendingCommands :: "nat \<rightharpoonup> nat"
  stateChangedCallbacks :: "nat list"
  connectionStateCallbacks :: "nat list"
  errorCallbacks :: "nat list"
  reconnectTimer :: "nat option"
  heartbeatTimer :: "nat option"
  reconnectAttempts :: nat
  promises :: "promise_state list"
  sent :: "ws_out list"
  notified :: "callback_call list"

definition maxReconnectAttempts :: nat where
  "maxReconnectAttempts = 5"

definition reconnectDelay :: nat where
  "reconnectDelay = 1000"

definition newWebSocketApi :: "string \<Rightarrow> string \<Rightarrow> ws" where
  "newWebSocketApi url token =
     \<lparr>baseUrl = url, accessToken = token, socket = None, connectionState = CLOSED,
      messageId = 1, pendingCommands = Map.empty, stateChangedCallbacks = [],
      connectionStateCallbacks = [], errorCallbacks = [], reconnectTimer = None,
      heartbeatTimer = None, reconnectAttempts = 0, promises = [], sent = [], notified = []\<rparr>"

subsection \<open>Promises\<close>

definition newPromise :: "ws \<Rightarrow> nat \<times> ws" where
  "newPromise s = (length (promises s), s\<lparr>promises := promises s @ [Pending]\<rparr>)"

definition settle :: "nat \<Rightarrow> promise_state \<Rightarrow> ws \<Rightarrow> ws" where
  "settle p v s =
     (if p < length (promises s) \<and> promises s ! p = Pending
      then s\<lparr>promises := (promises s)[p := v]\<rparr> else s)"

definition resolvePromise :: "nat \<Rightarrow> json option \<Rightarrow> ws \<Rightarrow> ws" where
  "resolvePromise p v s = settle p (Fulfilled v) s"

definition rejectPromise :: "nat \<Rightarrow> string \<Rightarrow> ws \<Rightarrow> ws" where
  "rejectPromise p m s = settle p (Rejected m) s"

subsection \<open>Private helpers\<close>

definition updateConnectionState :: "connection_state \<Rightarrow> ws \<Rightarrow> ws" where
  "updateConnectionState st s =
     (if connectionState s = st then s
      else s\<lparr>connectionState := st,
             notified := notified s @ map (\<lambda>cb. ConnectionStateCb cb st) (connectionStateCallbacks s)\<rparr>)"

definition notifyError :: "string \<Rightarrow> ws \<Rightarrow> ws" where
  "notifyError m s = s\<lparr>notified := notified s @ map (\<lambda>cb. ErrorCb cb m) (errorCallbacks s)\<rparr>"

definition clearTimers :: "ws \<Rightarrow> ws" where
  "clearTimers s = s\<lparr>heartbeatTimer := None, reconnectTimer := None\<rparr>"

definition setupHeartbeat :: "ws \<Rightarrow> ws" where
  "setupHeartbeat s = (clearTimers s)\<lparr>heartbeatTimer := Some 30000\<rparr>"

text \<open>One tick of the heartbeat interval.\<close>

definition heartbeatTick :: "ws \<Rightarrow> ws" where
  "heartbeatTick s =
     (if socket s = Some RS_OPEN
      then s\<lparr>messageId := messageId s + 1, sent := sent s @ [OutPing (messageId s)]\<rparr>
      else s)"

definition attemptReconnect :: "ws \<Rightarrow> ws" where
  "attemptReconnect s =
     (if reconnectTimer s \<noteq> None then s
      else if reconnectAttempts s \<ge> maxReconnectAttempts then
        notifyError (''Failed to reconnect after '' @ showNat maxReconnectAttempts @ '' attempts'')
          (updateConnectionState ERROR s)
      else
        (updateConnectionState RECONNECTING s)
          \<lparr>reconnectTimer := Some (reconnectDelay * 2 ^ reconnectAttempts s)\<rparr>)"

definition authenticate :: "ws \<Rightarrow> ws" where
  "authenticate s =
     (if socket s = None then s else s\<lparr>sent := sent s @ [OutAuth (accessToken s)]\<rparr>)"

definition handleResult ::
  "nat \<Rightarrow> bool \<Rightarrow> json option \<Rightarrow> (string \<times> string) option \<Rightarrow> ws \<Rightarrow> ws" where
  "handleResult ident success res err s =
     (case pendingCommands s ident of
        None \<Rightarrow> s
      | Some p \<Rightarrow>
          (let s1 = s\<lparr>pendingCommands := (pendingCommands s)(ident := None)\<rparr> in
           if success then resolvePromise p res s1
           else notifyError
                  (''Command failed: '' @
                     (case err of
                        None \<Rightarrow> ''Unknown error''
                      | Some (code, m) \<Rightarrow> if m = [] then ''Unknown error'' else m))
                  s1))"

definition handleEvent :: "string \<Rightarrow> notification \<Rightarrow> ws \<Rightarrow> ws" where
  "handleEvent event_type d s =
     (if event_type = ''state_changed''
      then s\<lparr>notified := notified s
               @ map (\<lambda>cb. StateChangedCb cb (n_entityId d) (n_newState d) (n_oldState d))
                   (stateChangedCallbacks s)\<rparr>
      else s)"

text \<open>
  \<^verbatim>\<open>handleMessage(data, resolveConnect, rejectConnect)\<close>: \<open>parsed\<close> is the outcome of
  \<^verbatim>\<open>JSON.parse(data)\<close> (\<open>Inl\<close> the message of the error it threw), \<open>p\<close> the promise of
  the \<^verbatim>\<open>connect()\<close> call that installed the handler.
\<close>

definition handleMessage :: "string + ws_message \<Rightarrow> nat \<Rightarrow> ws \<Rightarrow> ws" where
  "handleMessage parsed p s =
     (case parsed of
        Inl m \<Rightarrow> notifyError m s
      | Inr AuthRequired \<Rightarrow> authenticate (updateConnectionState AUTHENTICATING s)
      | Inr AuthOk \<Rightarrow> resolvePromise p None (updateConnectionState CONNECTED s)
      | Inr (AuthInvalid m) \<Rightarrow>
          rejectPromise p (''Authentication failed: '' @ m)
            (notifyError (''Authentication failed: '' @ m) (updateConnectionState ERROR s))
      | Inr (Result ident success res err) \<Rightarrow> handleResult ident success res err s
      | Inr (Event event_type d) \<Rightarrow> handleEvent event_type d s
      | Inr Pong \<Rightarrow> s
      | Inr (Other t) \<Rightarrow> s)"

subsection \<open>Public operations\<close>

text \<open>
  \<^verbatim>\<open>connect()\<close> returns its promise. \<open>ctorError\<close> is the message of the error the
  \<^verbatim>\<open>WebSocket\<close> constructor threw, if it threw.
\<close>

definition connect :: "string option \<Rightarrow> ws \<Rightarrow> nat \<times> ws" where
  "connect ctorError s0 =
     (let p = fst (newPromise s0); s = snd (newPromise s0) in
      if socket s = Some RS_OPEN \<or> socket s = Some RS_CONNECTING
      then (p, resolvePromise p None s)
      else
        (case ctorError of
           None \<Rightarrow> (p, (updateConnectionState CONNECTING s)\<lparr>socket := Some RS_CONNECTING\<rparr>)
         | Some m \<Rightarrow>
             (p, rejectPromise p m
                   (notifyError m (updateConnectionState ERROR (updateConnectionState CONNECTING s))))))"

definition disconnect :: "ws \<Rightarrow> ws" where
  "disconnect s = updateConnectionState CLOSED ((clearTimers s)\<lparr>socket := None\<rparr>)"

definition getConnectionState :: "ws \<Rightarrow> connection_state" where
  "getConnectionState s = connectionState s"

definition sendCommand :: "string \<Rightarrow> (string \<times> json) list \<Rightarrow> ws \<Rightarrow> nat \<times> ws" where
  "sendCommand command params s0 =
     (let p = fst (newPromise s0); s = snd (newPromise s0) in
      if socket s \<noteq> Some RS_OPEN \<or> connectionState s \<noteq> CONNECTED
      then (p, rejectPromise p ''WebSocket not connected'' s)
      else
        (p, s\<lparr>messageId := messageId s + 1,
               pendingCommands := (pendingCommands s)(messageId s \<mapsto> p),
               sent := sent s @ [OutCommand (messageId s) command params]\<rparr>))"

definition ws_callService :: "string \<Rightarrow> string \<Rightarrow> (string \<times> json) list \<Rightarrow> ws \<Rightarrow> nat \<times> ws" where
  "ws_callService domain service data s =
     sendCommand ''call_service''
       [(''domain'', JStr domain), (''service'', JStr service), (''service_data'', JObj data)] s"

definition subscribeConnectionState :: "nat \<Rightarrow> ws \<Rightarrow> ws" where
  "subscribeConnectionState cb s =
     s\<lparr>connectionStateCallbacks := connectionStateCallbacks s @ [cb],
       notified := notified s @ [ConnectionStateCb cb (connectionState s)]\<rparr>"

definition subscribeError :: "nat \<Rightarrow> ws \<Rightarrow> ws" where
  "subscribeError cb s = s\<lparr>errorCallbacks := errorCallbacks s @ [cb]\<rparr>"

subsection \<open>Socket events and timers\<close>

text \<open>
  The handlers that \<^verbatim>\<open>connect()\<close> installs on the socket. \<open>p\<close> is the promise of that
  \<^verbatim>\<open>connect()\<close> call, \<open>errText\<close> what \<^verbatim>\<open>error.toString()\<close> gives.
\<close>

definition onopen :: "ws \<Rightarrow> ws" where
  "onopen s = setupHeartbeat (s\<lparr>reconnectAttempts := 0\<rparr>)"

definition onmessage :: "string + ws_message \<Rightarrow> nat \<Rightarrow> ws \<Rightarrow> ws" where
  "onmessage parsed p s = handleMessage parsed p s"

definition onclose :: "ws \<Rightarrow> ws" where
  "onclose s = attemptReconnect (clearTimers (updateConnectionState CLOSED s))"

definition onerror :: "string \<Rightarrow> nat \<Rightarrow> ws \<Rightarrow> ws" where
  "onerror errText p s =
     rejectPromise p errText
       (notifyError (''WebSocket error: '' @ errText) (updateConnectionState ERROR s))"

text \<open>
  The browser changes the ready state of the socket before it fires the event; the
  events below are those of the socket the \<open>socket\<close> field refers to.
\<close>

definition socketOpened :: "ws \<Rightarrow> ws" where
  "socketOpened s = onopen (s\<lparr>socket := map_option (\<lambda>r. RS_OPEN) (socket s)\<rparr>)"

definition socketClosed :: "ws \<Rightarrow> ws" where
  "socketClosed s = onclose (s\<lparr>socket := map_option (\<lambda>r. RS_CLOSED) (socket s)\<rparr>)"

text \<open>The reconnect timer fires: the callback given to \<^verbatim>\<open>setTimeout\<close>.\<close>

definition reconnectTimerFired :: "string option \<Rightarrow> ws \<Rightarrow> nat \<times> ws" where
  "reconnectTimerFired ctorError s =
     connect ctorError (s\<lparr>reconnectTimer := None, reconnectAttempts := reconnectAttempts s + 1\<rparr>)"

text \<open>
  A reconnection attempt that fails: the timer fires, \<^verbatim>\<open>connect()\<close> creates a socket,
  and the socket reports an error and closes without having opened.
\<close>

definition failedAttempt :: "string \<Rightarrow> ws \<Rightarrow> ws" where
  "failedAttempt errText s =
     socketClosed
       (onerror errText (fst (reconnectTimerFired None s)) (snd (reconnectTimerFired None s)))"

definition failedAttempts :: "nat \<Rightarrow> string \<Rightarrow> ws \<Rightarrow> ws" where
  "failedAttempts n errText s = (failedAttempt errText ^^ n) s"

text \<open>
  A reconnection attempt whose socket opens: the timer fires, \<^verbatim>\<open>connect()\<close> creates a
  socket, the socket opens, the messages \<open>msgs\<close> arrive on it, and it closes.
\<close>

definition openedAttempt :: "(string + ws_message) list \<Rightarrow> ws \<Rightarrow> ws" where
  "openedAttempt msgs s =
     socketClosed
       (foldl (\<lambda>t parsed. onmessage parsed (fst (reconnectTimerFired None s)) t)
          (socketOpened (snd (reconnectTimerFired None s))) msgs)"

definition openedAttempts :: "nat \<Rightarrow> (string + ws_message) list \<Rightarrow> ws \<Rightarrow> ws" where
  "openedAttempts n msgs s = (openedAttempt msgs ^^ n) s"

fun isErrorCb :: "callback_call \<Rightarrow> bool" where
  "isErrorCb (ErrorCb cb m) = True"
| "isErrorCb c = False"

section \<open>Scene activation on the push transport\<close>

text \<open>
  On the push transport the facade's \<^verbatim>\<open>callService\<close> awaits the promise of
  \<^verbatim>\<open>sendCommand\<close>. \<open>awaited\<close> is what the await gives for a state of that promise:
  nothing while it is pending, the value or the error once it is settled.
\<close>

definition awaited :: "promise_state \<Rightarrow> json response option" where
  "awaited pr =
     (case pr of
        Pending \<Rightarrow> None
      | Fulfilled v \<Rightarrow> Some (Inr (case v of None \<Rightarrow> JNull | Some x \<Rightarrow> x))
      | Rejected m \<Rightarrow> Some (Inl m))"

text \<open>
  The run of \<^verbatim>\<open>activateScene\<close> whose scene call has the promise state \<open>pr\<close> for good.
\<close>

definition activateSceneAwaiting :: "string \<Rightarrow> activate_env \<Rightarrow> promise_state \<Rightarrow> app \<Rightarrow> app" where
  "activateSceneAwaiting sid env pr c =
     (case awaited pr of
        None \<Rightarrow> activateSceneUnsettled sid env c
      | Some reply \<Rightarrow>
          activateScene sid (env\<lparr>sceneCall := (sceneCall env)\<lparr>callResp := reply\<rparr>\<rparr>) c)"

section \<open>Pull transport (src/api/homeAssistantApi.ts, class RestApiAdapter)\<close>

text \<open>An error thrown by the REST client: its message and, for an HTTP error, the status.\<close>

record api_error =
  ae_message :: string
  ae_status :: "nat option"

record rest =
  connected :: bool
  pollingInterval :: "nat option"
  entityCallbacks :: "nat list"
  connectionCallbacks :: "nat list"
  rest_errorCallbacks :: "nat list"
  lastStates :: "string \<rightharpoonup> entity"
  rest_notified :: "callback_call list"

definition pollingFrequency :: nat where
  "pollingFrequency = 3000"

definition newRestApiAdapter :: rest where
  "newRestApiAdapter =
     \<lparr>connected = False, pollingInterval = None, entityCallbacks = [], connectionCallbacks = [],
      rest_errorCallbacks = [], lastStates = Map.empty, rest_notified = []\<rparr>"

definition rest_notifyConnectionState :: "connection_state \<Rightarrow> rest \<Rightarrow> rest" where
  "rest_notifyConnectionState st r =
     r\<lparr>rest_notified := rest_notified r @ map (\<lambda>cb. ConnectionStateCb cb st) (connectionCallbacks r)\<rparr>"

definition rest_notifyError :: "string \<Rightarrow> rest \<Rightarrow> rest" where
  "rest_notifyError m r =
     r\<lparr>rest_notified := rest_notified r @ map (\<lambda>cb. ErrorCb cb m) (rest_errorCallbacks r)\<rparr>"

definition rest_disconnect :: "rest \<Rightarrow> rest" where
  "rest_disconnect r =
     rest_notifyConnectionState CLOSED (r\<lparr>connected := False, pollingInterval := None\<rparr>)"

definition rest_isConnected :: "rest \<Rightarrow> bool" where
  "rest_isConnected r = connected r"

definition rest_getConnectionState :: "rest \<Rightarrow> connection_state" where
  "rest_getConnectionState r = (if connected r then CONNECTED else CLOSED)"

definition handleApiError :: "api_error \<Rightarrow> rest \<Rightarrow> rest" where
  "handleApiError err r =
     (let r1 = rest_notifyError (ae_message err) r in
      case ae_status err of
        None \<Rightarrow> rest_notifyConnectionState ERROR r1
      | Some st \<Rightarrow>
          (if st = 401 then rest_disconnect r1
           else if st \<ge> 500 then rest_notifyConnectionState ERROR r1
           else r1))"

text \<open>The test that skips an entity in \<^verbatim>\<open>_pollEntities\<close>: \<open>old\<close> is the last observed value.\<close>

definition noChange :: "entity option \<Rightarrow> entity \<Rightarrow> bool" where
  "noChange old e =
     (case old of
        None \<Rightarrow> False
      | Some oldState \<Rightarrow>
          state oldState = state e \<and>
          stringify (JObj (attributes oldState)) = stringify (JObj (attributes e)))"

text \<open>The body of the loop over the fetched entities.\<close>

definition pollStep :: "rest \<Rightarrow> entity \<Rightarrow> rest" where
  "pollStep r e =
     (let oldState = lastStates r (entity_id e) in
      if noChange oldState e then r
      else r\<lparr>rest_notified := rest_notified r
                @ map (\<lambda>cb. StateChangedCb cb (entity_id e) (Some e) oldState) (entityCallbacks r),
             lastStates := (lastStates r)(entity_id e \<mapsto> e)\<rparr>)"

text \<open>
  \<^verbatim>\<open>_pollEntities\<close>: \<open>resp\<close> is what \<^verbatim>\<open>getStates()\<close> of the REST client answers. The
  client only throws \<^verbatim>\<open>Error\<close> objects. No other operation of the adapter runs between
  the guard and the loop.
\<close>

definition pollEntities :: "api_error + entity list \<Rightarrow> rest \<Rightarrow> rest" where
  "pollEntities resp r =
     (if \<not> connected r \<or> entityCallbacks r = [] then r
      else
        (case resp of
           Inr ents \<Rightarrow> foldl pollStep r ents
         | Inl err \<Rightarrow> handleApiError err r))"

text \<open>
  \<^verbatim>\<open>_startPolling\<close> sets the interval; the fetch it starts at once and the fetches of
  the interval are poll cycles, each a \<open>pollEntities\<close> of its own.
\<close>

definition startPolling :: "rest \<Rightarrow> rest" where
  "startPolling r = r\<lparr>pollingInterval := Some pollingFrequency\<rparr>"

definition rest_subscribeToEntities :: "nat \<Rightarrow> rest \<Rightarrow> rest" where
  "rest_subscribeToEntities cb r =
     (let r1 = r\<lparr>entityCallbacks := entityCallbacks r @ [cb]\<rparr> in
      if connected r1 \<and> pollingInterval r1 = None then startPolling r1 else r1)"

definition rest_subscribeToConnectionState :: "nat \<Rightarrow> rest \<Rightarrow> rest" where
  "rest_subscribeToConnectionState cb r =
     r\<lparr>connectionCallbacks := connectionCallbacks r @ [cb],
       rest_notified := rest_notified r
         @ [ConnectionStateCb cb (if rest_isConnected r then CONNECTED else CLOSED)]\<rparr>"

definition rest_subscribeToErrors :: "nat \<Rightarrow> rest \<Rightarrow> rest" where
  "rest_subscribeToErrors cb r = r\<lparr>rest_errorCallbacks := rest_errorCallbacks r @ [cb]\<rparr>"

text \<open>\<^verbatim>\<open>connect()\<close> of the adapter; \<open>resp\<close> is the answer to its test fetch.\<close>

definition rest_connect :: "api_error + entity list \<Rightarrow> rest \<Rightarrow> rest" where
  "rest_connect resp r =
     (case resp of
        Inr ents \<Rightarrow>
          (let r1 = rest_notifyConnectionState CONNECTED (r\<lparr>connected := True\<rparr>) in
           if entityCallbacks r1 \<noteq> [] then startPolling r1 else r1)
      | Inl err \<Rightarrow>
          rest_notifyError (ae_message err)
            (rest_notifyConnectionState ERROR (r\<lparr>connected := False\<rparr>)))"

text \<open>The listener calls that one fetched entity causes, given the adapter state.\<close>

definition changeCalls :: "rest \<Rightarrow> entity \<Rightarrow> callback_call list" where
  "changeCalls r e =
     (if noChange (lastStates r (entity_id e)) e then []
      else map (\<lambda>cb. StateChangedCb cb (entity_id e) (Some e) (lastStates r (entity_id e)))
             (entityCallbacks r))"

section \<open>Concrete scenarios\<close>

subsection \<open>A table with a scene and its two members\<close>

definition ex_lamp :: entity where
  "ex_lamp =
     \<lparr>entity_id = ''light.lamp'', state = ''on'',
      attributes = [(''brightness'', JNum 180), (''friendly_name'', JStr ''Lamp''),
                    (''supported_color_modes'', JArr [JStr ''brightness''])],
      last_changed = ''2024-05-01T20:00:00+00:00'', last_updated = ''2024-05-01T20:00:00+00:00'',
      context_id = ''01HWT0'', context_parent_id = None, context_user_id = None\<rparr>"

definition ex_fan :: entity where
  "ex_fan =
     \<lparr>entity_id = ''switch.fan'', state = ''off'',
      attributes = [(''friendly_name'', JStr ''Fan'')],
      last_changed = ''2024-05-01T19:00:00+00:00'', last_updated = ''2024-05-01T19:00:00+00:00'',
      context_id = ''01HWT1'', context_parent_id = None, context_user_id = None\<rparr>"

definition ex_scene :: entity where
  "ex_scene =
     \<lparr>entity_id = ''scene.movie_night'', state = ''2024-04-30T21:00:00+00:00'',
      attributes =
        [(''entities'',
          JObj [(''light.lamp'', JObj [(''state'', JStr ''on''), (''brightness'', JNum 40)]),
                (''switch.fan'', JObj [(''state'', JStr ''on'')])]),
         (''friendly_name'', JStr ''Movie night'')],
      last_changed = ''2024-04-30T21:00:00+00:00'', last_updated = ''2024-04-30T21:00:00+00:00'',
      context_id = ''01HWT2'', context_parent_id = None, context_user_id = None\<rparr>"

definition ex_app :: app where
  "ex_app =
     \<lparr>api = True, isConnected = True, error = None, entities = [ex_scene, ex_lamp, ex_fan],
      activeScenes = Map.empty, trace = []\<rparr>"

definition ex_call_ok :: call_env where
  "ex_call_ok = \<lparr>callResp = Inr (JArr []), connAfter = CONNECTED, refreshResp = Inr []\<rparr>"

definition ex_call_rejected :: call_env where
  "ex_call_rejected =
     \<lparr>callResp = Inl ''API request failed: 500 Internal Server Error'', connAfter = CONNECTED,
      refreshResp = Inr []\<rparr>"

definition ex_env_ok :: activate_env where
  "ex_env_ok = \<lparr>getStatesResp = Inr [ex_scene, ex_lamp, ex_fan], sceneCall = ex_call_ok\<rparr>"

definition ex_env_rejected :: activate_env where
  "ex_env_rejected =
     \<lparr>getStatesResp = Inr [ex_scene, ex_lamp, ex_fan], sceneCall = ex_call_rejected\<rparr>"

subsection \<open>Two changes of the lamp, the later one delivered first\<close>




subsection \<open>A push transport during the handshake, connected, and with one call in flight\<close>

definition ex_ws_handshake :: ws where
  "ex_ws_handshake =
     handleMessage (Inr AuthRequired) 0
       (socketOpened
          (snd (connect None
                  (subscribeError 2
                     (subscribeConnectionState 1
                        (newWebSocketApi ''http://ha.local:8123'' ''token''))))))"

definition ex_ws_connected :: ws where
  "ex_ws_connected = handleMessage (Inr AuthOk) 0 ex_ws_handshake"

definition ex_ws_inflight :: ws where
  "ex_ws_inflight =
     snd (ws_callService ''scene'' ''turn_on'' [(''entity_id'', JStr ''scene.movie_night'')]
            ex_ws_connected)"

definition ex_auth_rejected :: "(string + ws_message) list" where
  "ex_auth_rejected = [Inr AuthRequired, Inr (AuthInvalid ''Invalid access token'')]"

definition ex_rejection :: ws_message where
  "ex_rejection = Result 1 False None (Some (''not_found'', ''Service not found''))"

subsection \<open>A push transport during a scene activation\<close>

text \<open>The JSON form of an entity, as the controller sends it.\<close>

definition entityJson :: "entity \<Rightarrow> json" where
  "entityJson e =
     JObj [(''entity_id'', JStr (entity_id e)), (''state'', JStr (state e)),
           (''attributes'', JObj (attributes e)),
           (''last_changed'', JStr (last_changed e)), (''last_updated'', JStr (last_updated e)),
           (''context'',
            JObj [(''id'', JStr (context_id e)),
                  (''parent_id'', case context_parent_id e of None \<Rightarrow> JNull | Some x \<Rightarrow> JStr x),
                  (''user_id'', case context_user_id e of None \<Rightarrow> JNull | Some x \<Rightarrow> JStr x)])]"

text \<open>
  The fetch of the refresh was message 1 and has been answered; the scene call is
  message 2, in flight; then the controller rejects it.
\<close>

definition ex_ws_refreshed :: ws where
  "ex_ws_refreshed =
     handleMessage
       (Inr (Result 1 True (Some (JArr (map entityJson [ex_scene, ex_lamp, ex_fan]))) None)) 0
       (snd (sendCommand ''get_states'' [] ex_ws_connected))"

definition ex_ws_activating :: ws where
  "ex_ws_activating =
     snd (ws_callService ''scene'' ''turn_on'' [(''entity_id'', JStr ''scene.movie_night'')]
            ex_ws_refreshed)"

definition ex_scene_rejection :: ws_message where
  "ex_scene_rejection =
     Result 2 False None (Some (''home_assistant_error'', ''Unable to apply scene''))"

subsection \<open>A pull transport with one listener\<close>

definition ex_rest :: rest where
  "ex_rest = rest_connect (Inr [ex_lamp, ex_fan]) (rest_subscribeToEntities 1 newRestApiAdapter)"

definition ex_lamp_refetched :: entity where
  "ex_lamp_refetched = ex_lamp\<lparr>context_id := ''01HWT9''\<rparr>"

section \<open>The entity table: last write wins\<close>








text \<open>
  Claim C10. A change notification whose new entity is null leaves the entity table
  as it is: nothing is removed, replaced or added.
\<close>

theorem null_change_ignored:
  "handleEntityStateChange entityId None oldState tbl = tbl"
  by (simp add: handleEntityStateChange_def)

theorem null_change_ignored_witness:
  "handleEntityStateChange ''light.lamp'' None (Some ex_lamp) [ex_scene, ex_lamp, ex_fan] =
     [ex_scene, ex_lamp, ex_fan]"
  using null_change_ignored [of "''light.lamp''" "Some ex_lamp" "[ex_scene, ex_lamp, ex_fan]"]
  by simp

section \<open>Scene engine\<close>

subsection \<open>The two operations as single equations\<close>

lemma callService_unfold:
  "callService c domain service data env s =
     (if \<not> api c then (Inl ''API not initialized'', s)
      else
        (let s1 = s\<lparr>trace := trace s @ [ApiCallService domain service data]\<rparr> in
         case callResp env of
           Inl m \<Rightarrow> (Inl m, s1\<lparr>error := Some m\<rparr>)
         | Inr result \<Rightarrow>
             (if connAfter env \<noteq> CONNECTED then
                (case refreshEntities c (refreshResp env) s1 of
                   (Inl m, s2) \<Rightarrow> (Inl m, s2\<lparr>error := Some m\<rparr>)
                 | (Inr es, s2) \<Rightarrow> (Inr result, s2))
              else (Inr result, s1))))"
  by (simp add: callService_def callServiceIssued_def callServiceSettled_def Let_def)

lemma activateScene_unfold:
  "activateScene sid env c =
     (case getEntity (entities c) sid of
        None \<Rightarrow> activateFailed sid (''Scene '' @ sid @ '' not found'') c
      | Some sceneEntity \<Rightarrow>
          (let affectedEntityIds = fst (getSceneEntities sceneEntity);
               s1 = c\<lparr>trace := trace c @ snd (getSceneEntities sceneEntity)\<rparr>
           in case refreshEntities c (getStatesResp env) s1 of
                (Inl m, s2) \<Rightarrow> activateFailed sid m s2
              | (Inr es, s2) \<Rightarrow>
                  (let originalStates = fst (captureEntityStates (entities c) affectedEntityIds);
                       r = \<lparr>as_sceneId = sid, as_originalStates = originalStates\<rparr>;
                       s3 = s2\<lparr>activeScenes := (activeScenes s2)(sid \<mapsto> r),
                               trace := trace s2
                                 @ snd (captureEntityStates (entities c) affectedEntityIds)
                                 @ [SetActiveScene sid r]\<rparr>
                   in case callService c ''scene'' ''turn_on'' [(''entity_id'', JStr sid)]
                             (sceneCall env) s3 of
                        (Inl m, s4) \<Rightarrow> activateFailed sid m s4
                      | (Inr res, s4) \<Rightarrow> s4)))"
  by (simp add: activateScene_def activatePrepared_def Let_def split: option.splits prod.splits sum.splits)

subsection \<open>What a service call and a refresh leave behind\<close>

lemma callService_fst:
  "fst (callService c d sv data env s) = fst (callService c d sv data env s')"
  by (simp add: callService_unfold refreshEntities_def Let_def split: sum.splits prod.splits)

lemma callService_no_api:
  "\<not> api c \<Longrightarrow> callService c d sv data env s = (Inl ''API not initialized'', s)"
  by (simp add: callService_unfold)

lemma callService_api:
  "api c \<Longrightarrow> \<exists>post. trace (snd (callService c d sv data env s)) = trace s @ ApiCallService d sv data # post
     \<and> activeScenes (snd (callService c d sv data env s)) = activeScenes s
     \<and> (\<forall>m. fst (callService c d sv data env s) = Inl m \<longrightarrow> error (snd (callService c d sv data env s)) = Some m)"
  by (auto simp add: callService_unfold refreshEntities_def Let_def split: sum.splits prod.splits)

lemma refreshEntities_ok:
  "api c \<and> isConnected c \<longrightarrow> (\<exists>es. resp = Inr es) \<Longrightarrow>
   \<exists>es. fst (refreshEntities c resp s) = Inr es
     \<and> activeScenes (snd (refreshEntities c resp s)) = activeScenes s
     \<and> serviceCalls (trace (snd (refreshEntities c resp s))) = serviceCalls (trace s)
     \<and> (\<exists>fx. trace (snd (refreshEntities c resp s)) = trace s @ fx \<and> serviceCalls fx = [])"
  by (auto simp add: refreshEntities_def serviceCalls_def split: sum.splits)

lemma serviceCalls_warnings1: "serviceCalls (snd (getSceneEntities scene)) = []"
  by (simp add: getSceneEntities_def serviceCalls_def split: option.splits)

lemma serviceCalls_warnings2: "serviceCalls (snd (captureEntityStates ents ids)) = []"
  by (induction ids) (auto simp add: captureEntityStates_def captureEntityState_def serviceCalls_def Let_def split: option.splits)

lemma serviceCalls_append: "serviceCalls (xs @ ys) = serviceCalls xs @ serviceCalls ys"
  by (simp add: serviceCalls_def)

lemma callService_calls:
  "api c \<Longrightarrow> serviceCalls (trace (snd (callService c d sv data env s))) =
     serviceCalls (trace s) @ [ApiCallService d sv data]"
  by (auto simp add: callService_unfold refreshEntities_def Let_def serviceCalls_def split: sum.splits prod.splits)

lemma callService_frame:
  "api (snd (callService c d sv data env s)) = api s"
  "isConnected (snd (callService c d sv data env s)) = isConnected s"
  "activeScenes (snd (callService c d sv data env s)) = activeScenes s"
  by (auto simp add: callService_unfold refreshEntities_def Let_def split: sum.splits prod.splits)

lemmas ex_defs = ex_lamp_def ex_fan_def ex_scene_def ex_app_def ex_call_ok_def
  ex_call_rejected_def ex_env_ok_def ex_env_rejected_def

subsection \<open>Activation\<close>

text \<open>
  The part of an activation before the scene call. For a scene in the table and a
  refresh that does not fail it ends in a state that holds the active scene record
  (the captured snapshots of the members); up to there no service call has reached
  the transport.
\<close>

lemma activatePrepared_ok:
  assumes present: "getEntity (entities c) sid = Some scene"
    and refresh: "api c \<and> isConnected c \<longrightarrow> (\<exists>es. getStatesResp env = Inr es)"
  shows "\<exists>s3 pre.
      activatePrepared sid env c = Inr s3
    \<and> activeScenes s3 sid =
        Some \<lparr>as_sceneId = sid,
              as_originalStates =
                fst (captureEntityStates (entities c) (fst (getSceneEntities scene)))\<rparr>
    \<and> trace s3 =
        trace c @ pre
          @ [SetActiveScene sid
               \<lparr>as_sceneId = sid,
                as_originalStates =
                  fst (captureEntityStates (entities c) (fst (getSceneEntities scene)))\<rparr>]
    \<and> serviceCalls pre = []
    \<and> error s3 = error c \<and> api s3 = api c"
proof -
  let ?ids = "fst (getSceneEntities scene)"
  let ?w1 = "snd (getSceneEntities scene)"
  let ?w2 = "snd (captureEntityStates (entities c) ?ids)"
  let ?r = "\<lparr>as_sceneId = sid, as_originalStates = fst (captureEntityStates (entities c) ?ids)\<rparr>"
  let ?s1 = "c\<lparr>trace := trace c @ ?w1\<rparr>"
  let ?rf = "refreshEntities c (getStatesResp env) ?s1"
  obtain x s2 where rfeq: "?rf = (x, s2)"
    by (cases ?rf)
  from refreshEntities_ok [OF refresh, of ?s1] rfeq
  obtain es fx where x: "x = Inr es" and fx: "trace s2 = trace ?s1 @ fx" "serviceCalls fx = []"
    by auto
  have frame: "error s2 = error c" "api s2 = api c"
    using rfeq x by (auto simp add: refreshEntities_def split: if_splits sum.splits)
  let ?s3 = "s2\<lparr>activeScenes := (activeScenes s2)(sid \<mapsto> ?r),
                trace := trace s2 @ ?w2 @ [SetActiveScene sid ?r]\<rparr>"
  have p: "activatePrepared sid env c = Inr ?s3"
    by (simp add: activatePrepared_def present Let_def rfeq x)
  have tr: "trace ?s3 = trace c @ (?w1 @ fx @ ?w2) @ [SetActiveScene sid ?r]"
    by (simp add: fx)
  have pre0: "serviceCalls (?w1 @ fx @ ?w2) = []"
    by (simp add: serviceCalls_append serviceCalls_warnings1 serviceCalls_warnings2 fx)
  from p tr pre0 frame show ?thesis
    by (intro exI [of _ ?s3] exI [of _ "?w1 @ fx @ ?w2"]) simp
qed

text \<open>
  The rest of an activation when the scene call settles. The call is made in the
  prepared state, which holds the record. When it resolves, the record stays and the
  scene is active. When it rejects with message \<open>m\<close>, the \<^verbatim>\<open>catch\<close> block deletes the
  record, so the scene is inactive, the error is written to the console and, with an
  API instance, it is the facade's error string; activation does not rethrow it.
\<close>

lemma activate_when_call_settles:
  assumes present: "getEntity (entities c) sid = Some scene"
    and refresh: "api c \<and> isConnected c \<longrightarrow> (\<exists>es. getStatesResp env = Inr es)"
    and prepared: "activatePrepared sid env c = Inr s3"
  shows "(\<forall>res. fst (callService c ''scene'' ''turn_on'' [(''entity_id'', JStr sid)] (sceneCall env) s3) = Inr res \<longrightarrow>
            activeScenes (activateScene sid env c) sid = activeScenes s3 sid
          \<and> isSceneActive (activateScene sid env c) sid)
     \<and> (\<forall>m. fst (callService c ''scene'' ''turn_on'' [(''entity_id'', JStr sid)] (sceneCall env) s3) = Inl m \<longrightarrow>
            \<not> isSceneActive (activateScene sid env c) sid
          \<and> ConsoleError ''Failed to activate scene:'' m \<in> set (trace (activateScene sid env c))
          \<and> (api c \<longrightarrow> error (activateScene sid env c) = Some m))
     \<and> (api c \<longrightarrow>
          (\<exists>post. trace (activateScene sid env c) =
             trace s3 @ ApiCallService ''scene'' ''turn_on'' [(''entity_id'', JStr sid)] # post))"
proof -
  let ?data = "[(''entity_id'', JStr sid)]"
  let ?cs = "callService c ''scene'' ''turn_on'' ?data (sceneCall env) s3"
  from activatePrepared_ok [OF present refresh] prepared
  have rec: "activeScenes s3 sid \<noteq> None"
    by auto
  have unfold: "activateScene sid env c =
      (case ?cs of (Inl m, s4) \<Rightarrow> activateFailed sid m s4 | (Inr res, s4) \<Rightarrow> s4)"
    by (simp add: activateScene_def prepared)
  have act: "activeScenes (snd ?cs) = activeScenes s3"
    by (rule callService_frame)
  show ?thesis
  proof (cases "fst ?cs")
    case (Inr res0)
    then have res: "activateScene sid env c = snd ?cs"
      unfolding unfold by (cases ?cs) simp
    have post: "api c \<longrightarrow> (\<exists>post. trace (snd ?cs) = trace s3 @ ApiCallService ''scene'' ''turn_on'' ?data # post)"
      using callService_api [of c "''scene''" "''turn_on''" ?data "sceneCall env" s3] by blast
    from Inr rec act post show ?thesis
      by (simp add: res isSceneActive_def)
  next
    case (Inl m)
    then have res: "activateScene sid env c = activateFailed sid m (snd ?cs)"
      unfolding unfold by (cases ?cs) simp
    have inactive: "\<not> isSceneActive (activateScene sid env c) sid"
      unfolding res by (simp add: activateFailed_def isSceneActive_def)
    have logged: "ConsoleError ''Failed to activate scene:'' m \<in> set (trace (activateScene sid env c))"
      unfolding res by (simp add: activateFailed_def)
    have err: "api c \<longrightarrow> error (activateScene sid env c) = Some m"
      using callService_api [of c "''scene''" "''turn_on''" ?data "sceneCall env" s3] Inl
      unfolding res by (auto simp add: activateFailed_def)
    have post: "api c \<longrightarrow> (\<exists>post. trace (activateScene sid env c) =
        trace s3 @ ApiCallService ''scene'' ''turn_on'' ?data # post)"
      using callService_api [of c "''scene''" "''turn_on''" ?data "sceneCall env" s3]
      unfolding res by (auto simp add: activateFailed_def)
    from Inl inactive logged err post show ?thesis
      by simp
  qed
qed

lemma activate_rejecting_call_example:
  "\<not> isSceneActive (activateScene ''scene.movie_night'' ex_env_rejected ex_app) ''scene.movie_night''
   \<and> error (activateScene ''scene.movie_night'' ex_env_rejected ex_app) =
       Some ''API request failed: 500 Internal Server Error''"
  by (simp add: ex_defs activateScene_unfold getEntity_def getSceneEntities_def getProp_def
      refreshEntities_def captureEntityStates_def captureEntityState_def callService_unfold
      activateFailed_def isSceneActive_def Let_def)

text \<open>The prepared state of the scenario.\<close>

lemma ex_prepared:
  "activatePrepared ''scene.movie_night'' ex_env_ok ex_app =
     Inr \<lparr>api = True, isConnected = True, error = None, entities = [ex_scene, ex_lamp, ex_fan],
          activeScenes =
            [''scene.movie_night'' \<mapsto>
               \<lparr>as_sceneId = ''scene.movie_night'',
                as_originalStates =
                  [\<lparr>es_entityId = ''light.lamp'', es_state = ''on'',
                    es_attributes = [(''brightness'', JNum 180)]\<rparr>,
                   \<lparr>es_entityId = ''switch.fan'', es_state = ''off'',
                    es_attributes = [(''friendly_name'', JStr ''Fan'')]\<rparr>]\<rparr>],
          trace =
            [ApiGetStates,
             SetActiveScene ''scene.movie_night''
               \<lparr>as_sceneId = ''scene.movie_night'',
                as_originalStates =
                  [\<lparr>es_entityId = ''light.lamp'', es_state = ''on'',
                    es_attributes = [(''brightness'', JNum 180)]\<rparr>,
                   \<lparr>es_entityId = ''switch.fan'', es_state = ''off'',
                    es_attributes = [(''friendly_name'', JStr ''Fan'')]\<rparr>]\<rparr>]\<rparr>"
  by (simp add: activatePrepared_def ex_defs getEntity_def getSceneEntities_def getProp_def
      refreshEntities_def captureEntityStates_def captureEntityState_def Let_def
      copyLightAttributes_def copyIfDefined_def setProp_def objectAssign_def)

subsection \<open>Deactivation\<close>

lemma restoreOne_calls:
  "api c \<Longrightarrow> serviceCalls (trace (restoreOne c es env s)) =
     serviceCalls (trace s) @ map callEffect (List.map_filter restoreCall [es])"
proof (cases "restoreCall es")
  case None
  then show ?thesis by (simp add: restoreOne_def List.map_filter_simps)
next
  case (Some x)
  assume a: "api c"
  obtain d sv data where x: "x = (d, sv, data)" by (cases x)
  obtain r s' where cs: "callService c d sv data env s = (r, s')" by (cases "callService c d sv data env s")
  from callService_calls [OF a, of d sv data env s] cs
  have "serviceCalls (trace s') = serviceCalls (trace s) @ [ApiCallService d sv data]" by simp
  then show ?thesis
    by (cases r) (simp_all add: restoreOne_def Some x cs List.map_filter_simps callEffect_def serviceCalls_def)
qed

lemma restoreOne_frame:
  "activeScenes (restoreOne c es env s) = activeScenes s"
proof (cases "restoreCall es")
  case None
  then show ?thesis by (simp add: restoreOne_def)
next
  case (Some x)
  obtain d sv data where x: "x = (d, sv, data)" by (cases x)
  obtain r s' where cs: "callService c d sv data env s = (r, s')" by (cases "callService c d sv data env s")
  from callService_frame(3) [of c d sv data env s] cs have "activeScenes s' = activeScenes s" by simp
  then show ?thesis
    by (cases r) (simp_all add: restoreOne_def Some x cs)
qed

lemma restoreAll_calls:
  "api c \<Longrightarrow> serviceCalls (trace (restoreAll c ess envs i s)) =
     serviceCalls (trace s) @ map callEffect (List.map_filter restoreCall ess)"
proof (induction ess arbitrary: i s)
  case Nil
  then show ?case by (simp add: List.map_filter_simps)
next
  case (Cons es ess)
  from Cons.prems have "serviceCalls (trace (restoreOne c es (envs i) s)) =
     serviceCalls (trace s) @ map callEffect (List.map_filter restoreCall [es])"
    by (rule restoreOne_calls)
  with Cons show ?case
    by (simp add: List.map_filter_simps split: option.splits)
qed

lemma restoreAll_frame:
  "activeScenes (restoreAll c ess envs i s) = activeScenes s"
  by (induction ess arbitrary: i s) (simp_all add: restoreOne_frame)

lemma deactivateScene_calls:
  assumes "api c" and "activeScenes c sid = Some r"
  shows "serviceCalls (trace (deactivateScene sid envs c)) =
     serviceCalls (trace c) @ map callEffect (List.map_filter restoreCall (as_originalStates r))"
    and "\<not> isSceneActive (deactivateScene sid envs c) sid"
proof -
  have d: "serviceCalls [DeleteActiveScene sid] = []"
    by (simp add: serviceCalls_def)
  show "serviceCalls (trace (deactivateScene sid envs c)) =
     serviceCalls (trace c) @ map callEffect (List.map_filter restoreCall (as_originalStates r))"
    using assms by (simp add: deactivateScene_def restoreAll_calls serviceCalls_append d)
  show "\<not> isSceneActive (deactivateScene sid envs c) sid"
    using assms by (simp add: deactivateScene_def restoreAll_frame isSceneActive_def)
qed

subsection \<open>What is captured for a light, and what restores it\<close>

lemma light_capture_props:
  "getProp (copyLightAttributes attrs []) k =
     (if k \<in> {''brightness'', ''color_temp'', ''rgb_color''} then getProp attrs k else None)"
  by (cases "getProp attrs ''brightness''"; cases "getProp attrs ''color_temp''";
      cases "getProp attrs ''rgb_color''")
     (auto simp add: copyLightAttributes_def copyIfDefined_def setProp_def getProp_def)

lemma light_restore_data:
  "copyLightAttributes (copyLightAttributes attrs []) [(''entity_id'', x), (''transition'', t)] =
     [(''entity_id'', x), (''transition'', t)] @ copyLightAttributes attrs []"
proof -
  have "copyLightAttributes la [(''entity_id'', x), (''transition'', t)] =
      [(''entity_id'', x), (''transition'', t)] @ la"
    if "la = copyLightAttributes attrs []" for la
    unfolding that
    by (cases "getProp attrs ''brightness''"; cases "getProp attrs ''color_temp''";
        cases "getProp attrs ''rgb_color''")
       (auto simp add: copyLightAttributes_def copyIfDefined_def setProp_def getProp_def)
  then show ?thesis
    by simp
qed

lemma activateScene_success:
  assumes present: "getEntity (entities c) sid = Some scene"
    and a: "api c"
    and refresh: "isConnected c \<longrightarrow> (\<exists>es. getStatesResp env = Inr es)"
    and ok: "fst (callService c ''scene'' ''turn_on'' [(''entity_id'', JStr sid)] (sceneCall env) c) = Inr res"
  shows "activeScenes (activateScene sid env c) sid =
      Some \<lparr>as_sceneId = sid,
            as_originalStates = fst (captureEntityStates (entities c) (fst (getSceneEntities scene)))\<rparr>"
    and "api (activateScene sid env c)"
proof -
  let ?ids = "fst (getSceneEntities scene)"
  let ?w1 = "snd (getSceneEntities scene)"
  let ?w2 = "snd (captureEntityStates (entities c) ?ids)"
  let ?r = "\<lparr>as_sceneId = sid, as_originalStates = fst (captureEntityStates (entities c) ?ids)\<rparr>"
  let ?s1 = "c\<lparr>trace := trace c @ ?w1\<rparr>"
  let ?rf = "refreshEntities c (getStatesResp env) ?s1"
  let ?s2 = "snd ?rf"
  let ?s3 = "?s2\<lparr>activeScenes := (activeScenes ?s2)(sid \<mapsto> ?r), trace := trace ?s2 @ ?w2 @ [SetActiveScene sid ?r]\<rparr>"
  let ?data = "[(''entity_id'', JStr sid)]"
  let ?cs = "callService c ''scene'' ''turn_on'' ?data (sceneCall env) ?s3"
  obtain x s2 where rfeq: "?rf = (x, s2)"
    by (cases ?rf)
  from refresh have "\<exists>es. x = Inr es" and s2api: "api s2 = api c"
    using rfeq by (cases "getStatesResp env"; auto simp add: refreshEntities_def split: if_splits)+
  then obtain es where x: "x = Inr es" by blast
  have "fst ?cs = Inr res"
    using ok callService_fst [of c "''scene''" "''turn_on''" ?data "sceneCall env" ?s3 c] by simp
  then obtain s4 where cs: "?cs = (Inr res, s4)"
    by (cases ?cs) simp
  have res: "activateScene sid env c = s4"
    using cs by (simp add: activateScene_unfold present Let_def rfeq x)
  from callService_frame(3) [of c "''scene''" "''turn_on''" ?data "sceneCall env" ?s3] cs
  have "activeScenes s4 = activeScenes ?s3" by simp
  then show "activeScenes (activateScene sid env c) sid = Some ?r"
    by (simp add: res)
  from callService_frame(1) [of c "''scene''" "''turn_on''" ?data "sceneCall env" ?s3] cs
  have "api s4 = api ?s3" by simp
  then show "api (activateScene sid env c)"
    using a s2api by (simp add: res rfeq)
qed

text \<open>
  Claim C7. Activating the scene \<^verbatim>\<open>scene.movie_night\<close> whose members are \<^verbatim>\<open>light.lamp\<close>
  (on, brightness 180) and \<^verbatim>\<open>switch.fan\<close> (off) records exactly two snapshots. The
  snapshot of the light keeps the brightness 180, keeps the colour temperature and
  the RGB colour exactly if the light has them, and keeps no other attribute of the
  light. Deactivating then removes the record and issues exactly two service calls:
  \<^verbatim>\<open>light.turn_on\<close> for the lamp with a transition of one second and the captured
  attributes, and \<^verbatim>\<open>switch.turn_off\<close> for the fan. The snapshots are taken from the table
  the running activation closed over.
\<close>

theorem scenario_movie_night:
  assumes scene: "getEntity (entities c) ''scene.movie_night'' = Some scene"
    and members: "getProp (attributes scene) ''entities'' =
        Some (JObj [(''light.lamp'', a), (''switch.fan'', b)])"
    and lamp: "getEntity (entities c) ''light.lamp'' = Some lamp" "state lamp = ''on''"
      "getProp (attributes lamp) ''brightness'' = Some (JNum 180)"
    and fan: "getEntity (entities c) ''switch.fan'' = Some fan" "state fan = ''off''"
    and connected: "api c"
    and refresh: "isConnected c \<longrightarrow> (\<exists>es. getStatesResp env = Inr es)"
    and ok: "fst (callService c ''scene'' ''turn_on'' [(''entity_id'', JStr ''scene.movie_night'')]
                    (sceneCall env) c) = Inr res"
  shows
    "activeScenes (activateScene ''scene.movie_night'' env c) ''scene.movie_night'' =
        Some \<lparr>as_sceneId = ''scene.movie_night'',
              as_originalStates =
                [\<lparr>es_entityId = ''light.lamp'', es_state = ''on'',
                  es_attributes = copyLightAttributes (attributes lamp) []\<rparr>,
                 \<lparr>es_entityId = ''switch.fan'', es_state = ''off'',
                  es_attributes = objectAssign [] (attributes fan)\<rparr>]\<rparr>
     \<and> getProp (copyLightAttributes (attributes lamp) []) ''brightness'' = Some (JNum 180)
     \<and> (\<forall>k. getProp (copyLightAttributes (attributes lamp) []) k =
            (if k \<in> {''brightness'', ''color_temp'', ''rgb_color''}
             then getProp (attributes lamp) k else None))
     \<and> serviceCalls (trace (deactivateScene ''scene.movie_night'' envs
                                (activateScene ''scene.movie_night'' env c))) =
         serviceCalls (trace (activateScene ''scene.movie_night'' env c))
           @ [ApiCallService ''light'' ''turn_on''
                ([(''entity_id'', JStr ''light.lamp''), (''transition'', JNum 1)]
                   @ copyLightAttributes (attributes lamp) []),
              ApiCallService ''switch'' ''turn_off'' [(''entity_id'', JStr ''switch.fan'')]]
     \<and> \<not> isSceneActive (deactivateScene ''scene.movie_night'' envs
                            (activateScene ''scene.movie_night'' env c)) ''scene.movie_night''"
proof -
  let ?la = "copyLightAttributes (attributes lamp) []"
  let ?snap = "[\<lparr>es_entityId = ''light.lamp'', es_state = ''on'', es_attributes = ?la\<rparr>,
                 \<lparr>es_entityId = ''switch.fan'', es_state = ''off'',
                  es_attributes = objectAssign [] (attributes fan)\<rparr>]"
  let ?r = "\<lparr>as_sceneId = ''scene.movie_night'', as_originalStates = ?snap\<rparr>"
  let ?s = "activateScene ''scene.movie_night'' env c"
  have ids: "fst (getSceneEntities scene) = [''light.lamp'', ''switch.fan'']"
    by (simp add: getSceneEntities_def members)
  have cap: "fst (captureEntityStates (entities c) [''light.lamp'', ''switch.fan'']) = ?snap"
    by (simp add: captureEntityStates_def captureEntityState_def lamp fan)
  from activateScene_success [OF scene connected refresh ok]
  have act: "activeScenes ?s ''scene.movie_night'' = Some ?r" and api: "api ?s"
    by (simp_all add: ids cap)
  have props: "\<forall>k. getProp ?la k =
          (if k \<in> {''brightness'', ''color_temp'', ''rgb_color''}
           then getProp (attributes lamp) k else None)"
    using light_capture_props by blast
  then have br: "getProp ?la ''brightness'' = Some (JNum 180)"
    by (simp add: lamp)
  have r1: "restoreCall \<lparr>es_entityId = ''light.lamp'', es_state = ''on'', es_attributes = ?la\<rparr> =
      Some (''light'', ''turn_on'',
            [(''entity_id'', JStr ''light.lamp''), (''transition'', JNum 1)] @ ?la)"
    unfolding restoreCall_def Let_def
    by (simp add: domainOf_def light_restore_data del: append.simps)
  have r2: "restoreCall \<lparr>es_entityId = ''switch.fan'', es_state = ''off'',
                  es_attributes = objectAssign [] (attributes fan)\<rparr> =
      Some (''switch'', ''turn_off'', [(''entity_id'', JStr ''switch.fan'')])"
    by (simp add: restoreCall_def domainOf_def)
  have calls: "map callEffect (List.map_filter restoreCall ?snap) =
      [ApiCallService ''light'' ''turn_on''
         ([(''entity_id'', JStr ''light.lamp''), (''transition'', JNum 1)] @ ?la),
       ApiCallService ''switch'' ''turn_off'' [(''entity_id'', JStr ''switch.fan'')]]"
    by (simp only: List.map_filter_simps r1 r2 option.case list.map callEffect_def prod.case)
  from deactivateScene_calls [OF api act, of envs] calls
  have d: "serviceCalls (trace (deactivateScene ''scene.movie_night'' envs ?s)) =
        serviceCalls (trace ?s)
          @ [ApiCallService ''light'' ''turn_on''
               ([(''entity_id'', JStr ''light.lamp''), (''transition'', JNum 1)] @ ?la),
             ApiCallService ''switch'' ''turn_off'' [(''entity_id'', JStr ''switch.fan'')]]"
    and i: "\<not> isSceneActive (deactivateScene ''scene.movie_night'' envs ?s) ''scene.movie_night''"
    by simp_all
  from act br props d i show ?thesis
    by (simp only: simp_thms)
qed

theorem scenario_movie_night_witness:
  "activeScenes (activateScene ''scene.movie_night'' ex_env_ok ex_app) ''scene.movie_night'' =
        Some \<lparr>as_sceneId = ''scene.movie_night'',
              as_originalStates =
                [\<lparr>es_entityId = ''light.lamp'', es_state = ''on'',
                  es_attributes = [(''brightness'', JNum 180)]\<rparr>,
                 \<lparr>es_entityId = ''switch.fan'', es_state = ''off'',
                  es_attributes = [(''friendly_name'', JStr ''Fan'')]\<rparr>]\<rparr>
   \<and> serviceCalls (trace (deactivateScene ''scene.movie_night'' (\<lambda>i. ex_call_ok)
                               (activateScene ''scene.movie_night'' ex_env_ok ex_app))) =
          [ApiCallService ''scene'' ''turn_on'' [(''entity_id'', JStr ''scene.movie_night'')],
           ApiCallService ''light'' ''turn_on''
             [(''entity_id'', JStr ''light.lamp''), (''transition'', JNum 1),
              (''brightness'', JNum 180)],
           ApiCallService ''switch'' ''turn_off'' [(''entity_id'', JStr ''switch.fan'')]]"
proof -
  have h1: "getEntity (entities ex_app) ''scene.movie_night'' = Some ex_scene"
    by (simp add: ex_defs getEntity_def)
  have h2: "getProp (attributes ex_scene) ''entities'' =
      Some (JObj [(''light.lamp'', JObj [(''state'', JStr ''on''), (''brightness'', JNum 40)]),
                  (''switch.fan'', JObj [(''state'', JStr ''on'')])])"
    by (simp add: ex_defs getProp_def)
  have h3: "getEntity (entities ex_app) ''light.lamp'' = Some ex_lamp" "state ex_lamp = ''on''"
    "getProp (attributes ex_lamp) ''brightness'' = Some (JNum 180)"
    by (simp_all add: ex_defs getEntity_def getProp_def)
  have h4: "getEntity (entities ex_app) ''switch.fan'' = Some ex_fan" "state ex_fan = ''off''"
    by (simp_all add: ex_defs getEntity_def)
  have h5: "api ex_app" "isConnected ex_app \<longrightarrow> (\<exists>es. getStatesResp ex_env_ok = Inr es)"
    by (simp_all add: ex_defs)
  have h6: "fst (callService ex_app ''scene'' ''turn_on'' [(''entity_id'', JStr ''scene.movie_night'')]
                  (sceneCall ex_env_ok) ex_app) = Inr (JArr [])"
    by (simp add: ex_defs callService_unfold)
  have tr: "serviceCalls (trace (activateScene ''scene.movie_night'' ex_env_ok ex_app)) =
      [ApiCallService ''scene'' ''turn_on'' [(''entity_id'', JStr ''scene.movie_night'')]]"
    by (simp add: ex_defs activateScene_unfold getEntity_def getSceneEntities_def getProp_def
        refreshEntities_def captureEntityStates_def captureEntityState_def callService_unfold
        serviceCalls_def Let_def)
  have la: "copyLightAttributes (attributes ex_lamp) [] = [(''brightness'', JNum 180)]"
    by (simp add: ex_defs copyLightAttributes_def copyIfDefined_def setProp_def getProp_def)
  have fa: "objectAssign [] (attributes ex_fan) = [(''friendly_name'', JStr ''Fan'')]"
    by (simp add: ex_defs objectAssign_def setProp_def)
  from scenario_movie_night [OF h1 h2 h3 h4 h5 h6, of "\<lambda>i. ex_call_ok"] show ?thesis
    by (simp add: la fa tr)
qed

section \<open>Push transport\<close>

subsection \<open>Fields that the helpers leave alone\<close>

lemma updateConnectionState_fields [simp]:
  "connectionState (updateConnectionState st s) = st"
  "reconnectAttempts (updateConnectionState st s) = reconnectAttempts s"
  "reconnectTimer (updateConnectionState st s) = reconnectTimer s"
  "heartbeatTimer (updateConnectionState st s) = heartbeatTimer s"
  "socket (updateConnectionState st s) = socket s"
  "promises (updateConnectionState st s) = promises s"
  "pendingCommands (updateConnectionState st s) = pendingCommands s"
  "errorCallbacks (updateConnectionState st s) = errorCallbacks s"
  "connectionStateCallbacks (updateConnectionState st s) = connectionStateCallbacks s"
  by (simp_all add: updateConnectionState_def)

lemma notifyError_fields [simp]:
  "connectionState (notifyError m s) = connectionState s"
  "reconnectAttempts (notifyError m s) = reconnectAttempts s"
  "reconnectTimer (notifyError m s) = reconnectTimer s"
  "heartbeatTimer (notifyError m s) = heartbeatTimer s"
  "socket (notifyError m s) = socket s"
  "promises (notifyError m s) = promises s"
  "pendingCommands (notifyError m s) = pendingCommands s"
  "notified (notifyError m s) = notified s @ map (\<lambda>cb. ErrorCb cb m) (errorCallbacks s)"
  by (simp_all add: notifyError_def)

lemma settle_fields [simp]:
  "connectionState (settle p v s) = connectionState s"
  "reconnectAttempts (settle p v s) = reconnectAttempts s"
  "reconnectTimer (settle p v s) = reconnectTimer s"
  "heartbeatTimer (settle p v s) = heartbeatTimer s"
  "socket (settle p v s) = socket s"
  "pendingCommands (settle p v s) = pendingCommands s"
  "notified (settle p v s) = notified s"
  by (simp_all add: settle_def)

lemma clearTimers_fields [simp]:
  "connectionState (clearTimers s) = connectionState s"
  "reconnectAttempts (clearTimers s) = reconnectAttempts s"
  "reconnectTimer (clearTimers s) = None"
  "heartbeatTimer (clearTimers s) = None"
  "socket (clearTimers s) = socket s"
  "promises (clearTimers s) = promises s"
  "pendingCommands (clearTimers s) = pendingCommands s"
  "notified (clearTimers s) = notified s"
  by (simp_all add: clearTimers_def)

subsection \<open>The concrete transport states\<close>

lemmas ws_defs = newWebSocketApi_def subscribeConnectionState_def subscribeError_def connect_def
  newPromise_def socketOpened_def onopen_def setupHeartbeat_def clearTimers_def handleMessage_def
  updateConnectionState_def authenticate_def resolvePromise_def rejectPromise_def settle_def
  ws_callService_def sendCommand_def notifyError_def handleResult_def disconnect_def

lemma ex_ws_handshake_eq:
  "ex_ws_handshake =
     \<lparr>baseUrl = ''http://ha.local:8123'', accessToken = ''token'', socket = Some RS_OPEN,
      connectionState = AUTHENTICATING, messageId = 1, pendingCommands = Map.empty,
      stateChangedCallbacks = [], connectionStateCallbacks = [1], errorCallbacks = [2],
      reconnectTimer = None, heartbeatTimer = Some 30000, reconnectAttempts = 0,
      promises = [Pending], sent = [OutAuth ''token''],
      notified = [ConnectionStateCb 1 CLOSED, ConnectionStateCb 1 CONNECTING,
                  ConnectionStateCb 1 AUTHENTICATING]\<rparr>"
  by (simp add: ex_ws_handshake_def ws_defs Let_def)

lemma ex_ws_connected_eq:
  "ex_ws_connected =
     \<lparr>baseUrl = ''http://ha.local:8123'', accessToken = ''token'', socket = Some RS_OPEN,
      connectionState = CONNECTED, messageId = 1, pendingCommands = Map.empty,
      stateChangedCallbacks = [], connectionStateCallbacks = [1], errorCallbacks = [2],
      reconnectTimer = None, heartbeatTimer = Some 30000, reconnectAttempts = 0,
      promises = [Fulfilled None], sent = [OutAuth ''token''],
      notified = [ConnectionStateCb 1 CLOSED, ConnectionStateCb 1 CONNECTING,
                  ConnectionStateCb 1 AUTHENTICATING, ConnectionStateCb 1 CONNECTED]\<rparr>"
  by (simp add: ex_ws_connected_def ex_ws_handshake_eq ws_defs Let_def)

lemma ex_ws_inflight_eq:
  "ex_ws_inflight =
     \<lparr>baseUrl = ''http://ha.local:8123'', accessToken = ''token'', socket = Some RS_OPEN,
      connectionState = CONNECTED, messageId = 2, pendingCommands = [1 \<mapsto> 1],
      stateChangedCallbacks = [], connectionStateCallbacks = [1], errorCallbacks = [2],
      reconnectTimer = None, heartbeatTimer = Some 30000, reconnectAttempts = 0,
      promises = [Fulfilled None, Pending],
      sent = [OutAuth ''token'',
              OutCommand 1 ''call_service''
                [(''domain'', JStr ''scene''), (''service'', JStr ''turn_on''),
                 (''service_data'', JObj [(''entity_id'', JStr ''scene.movie_night'')])]],
      notified = [ConnectionStateCb 1 CLOSED, ConnectionStateCb 1 CONNECTING,
                  ConnectionStateCb 1 AUTHENTICATING, ConnectionStateCb 1 CONNECTED]\<rparr>"
  by (simp add: ex_ws_inflight_def ex_ws_connected_eq ws_defs Let_def)

subsection \<open>Disconnecting\<close>

text \<open>
  Claim C3, as stated, fails: an invocation that is outstanding when \<^verbatim>\<open>disconnect()\<close> is
  called does not fail with a cancellation. In the transport with one call in flight
  the call's promise is pending before \<^verbatim>\<open>disconnect()\<close> and still pending after it, and
  its entry is still in the table of pending commands.
\<close>

theorem disconnect_cancels_counterexample:
  "pendingCommands ex_ws_inflight 1 = Some 1
   \<and> promises ex_ws_inflight ! 1 = Pending
   \<and> promises (disconnect ex_ws_inflight) ! 1 = Pending
   \<and> pendingCommands (disconnect ex_ws_inflight) 1 = Some 1"
  by (simp add: ex_ws_inflight_eq ws_defs)

text \<open>
  Claim C3, amended. \<^verbatim>\<open>disconnect()\<close> stops the heartbeat and the reconnect timer, drops
  the socket and sets the connection state to Closed. It does not touch the
  outstanding invocations: the pending commands and all promises are as before.
\<close>

theorem disconnect_leaves_invocations_pending:
  "heartbeatTimer (disconnect s) = None
   \<and> reconnectTimer (disconnect s) = None
   \<and> socket (disconnect s) = None
   \<and> connectionState (disconnect s) = CLOSED
   \<and> pendingCommands (disconnect s) = pendingCommands s
   \<and> promises (disconnect s) = promises s"
  by (simp add: disconnect_def)

theorem disconnect_leaves_invocations_pending_witness:
  "heartbeatTimer ex_ws_inflight = Some 30000
   \<and> heartbeatTimer (disconnect ex_ws_inflight) = None
   \<and> connectionState (disconnect ex_ws_inflight) = CLOSED
   \<and> promises (disconnect ex_ws_inflight) = [Fulfilled None, Pending]"
  using disconnect_leaves_invocations_pending [of ex_ws_inflight]
  by (simp add: ex_ws_inflight_eq)

lemma onclose_attempts [simp]: "reconnectAttempts (onclose s) = reconnectAttempts s"
  by (simp add: onclose_def attemptReconnect_def)

lemma onclose_retry:
  "reconnectAttempts s < 5 \<Longrightarrow>
     reconnectTimer (onclose s) = Some (1000 * 2 ^ reconnectAttempts s)
   \<and> connectionState (onclose s) = RECONNECTING"
  by (simp add: onclose_def attemptReconnect_def maxReconnectAttempts_def reconnectDelay_def)

lemma onclose_exhausted:
  "5 \<le> reconnectAttempts s \<Longrightarrow>
     reconnectTimer (onclose s) = None \<and> heartbeatTimer (onclose s) = None
   \<and> connectionState (onclose s) = ERROR"
  by (simp add: onclose_def attemptReconnect_def maxReconnectAttempts_def)

lemma socketClosed_retry:
  "reconnectAttempts s < 5 \<Longrightarrow>
     reconnectTimer (socketClosed s) = Some (1000 * 2 ^ reconnectAttempts s)
   \<and> connectionState (socketClosed s) = RECONNECTING"
  by (simp add: socketClosed_def onclose_retry)

lemma socketClosed_exhausted:
  "5 \<le> reconnectAttempts s \<Longrightarrow>
     reconnectTimer (socketClosed s) = None \<and> heartbeatTimer (socketClosed s) = None
   \<and> connectionState (socketClosed s) = ERROR"
  by (simp add: socketClosed_def onclose_exhausted)

lemma socketClosed_attempts [simp]: "reconnectAttempts (socketClosed s) = reconnectAttempts s"
  by (simp add: socketClosed_def)

text \<open>
  The handlers of a socket stay installed when \<^verbatim>\<open>disconnect()\<close> closes it. When the
  close event of that socket arrives afterwards, the handler schedules a
  reconnection.
\<close>

lemma close_event_after_disconnect:
  "reconnectAttempts s < 5 \<Longrightarrow>
     connectionState (socketClosed (disconnect s)) = RECONNECTING
   \<and> reconnectTimer (socketClosed (disconnect s)) = Some (1000 * 2 ^ reconnectAttempts s)"
  using socketClosed_retry [of "disconnect s"] by (simp add: disconnect_def)

subsection \<open>Replies\<close>

text \<open>
  Claim C4 at a concrete input. The transport has one call in flight, with message
  id 1 and promise 1, and the controller rejects it with code \<^verbatim>\<open>not_found\<close> and message
  \<^verbatim>\<open>Service not found\<close>. The entry of the call is removed and the error observer is
  called with the message, but the promise of the call stays pending: it is not
  rejected, and with its entry gone no later message can settle it.
\<close>

theorem rejected_call_left_pending:
  "pendingCommands ex_ws_inflight 1 = Some 1
   \<and> promises ex_ws_inflight ! 1 = Pending
   \<and> promises (handleMessage (Inr ex_rejection) 0 ex_ws_inflight) ! 1 = Pending
   \<and> pendingCommands (handleMessage (Inr ex_rejection) 0 ex_ws_inflight) 1 = None
   \<and> notified (handleMessage (Inr ex_rejection) 0 ex_ws_inflight) =
       notified ex_ws_inflight @ [ErrorCb 2 ''Command failed: Service not found'']"
  by (simp add: ex_ws_inflight_eq ex_rejection_def ws_defs)

lemma handleResult_failure:
  assumes "pendingCommands s i = Some p"
  shows "promises (handleResult i False res err s) = promises s"
    and "pendingCommands (handleResult i False res err s) i = None"
  using assms by (simp_all add: handleResult_def Let_def)

subsection \<open>A scene activation that the controller rejects\<close>

lemma ex_ws_refreshed_eq:
  "ex_ws_refreshed =
     \<lparr>baseUrl = ''http://ha.local:8123'', accessToken = ''token'', socket = Some RS_OPEN,
      connectionState = CONNECTED, messageId = 2, pendingCommands = Map.empty,
      stateChangedCallbacks = [], connectionStateCallbacks = [1], errorCallbacks = [2],
      reconnectTimer = None, heartbeatTimer = Some 30000, reconnectAttempts = 0,
      promises = [Fulfilled None, Fulfilled (Some (JArr (map entityJson [ex_scene, ex_lamp, ex_fan])))],
      sent = [OutAuth ''token'', OutCommand 1 ''get_states'' []],
      notified = [ConnectionStateCb 1 CLOSED, ConnectionStateCb 1 CONNECTING,
                  ConnectionStateCb 1 AUTHENTICATING, ConnectionStateCb 1 CONNECTED]\<rparr>"
  by (simp add: ex_ws_refreshed_def ex_ws_connected_eq ws_defs Let_def)

lemma ex_ws_activating_eq:
  "ex_ws_activating =
     \<lparr>baseUrl = ''http://ha.local:8123'', accessToken = ''token'', socket = Some RS_OPEN,
      connectionState = CONNECTED, messageId = 3, pendingCommands = [2 \<mapsto> 2],
      stateChangedCallbacks = [], connectionStateCallbacks = [1], errorCallbacks = [2],
      reconnectTimer = None, heartbeatTimer = Some 30000, reconnectAttempts = 0,
      promises = [Fulfilled None, Fulfilled (Some (JArr (map entityJson [ex_scene, ex_lamp, ex_fan]))),
                  Pending],
      sent = [OutAuth ''token'', OutCommand 1 ''get_states'' [],
              OutCommand 2 ''call_service''
                [(''domain'', JStr ''scene''), (''service'', JStr ''turn_on''),
                 (''service_data'', JObj [(''entity_id'', JStr ''scene.movie_night'')])]],
      notified = [ConnectionStateCb 1 CLOSED, ConnectionStateCb 1 CONNECTING,
                  ConnectionStateCb 1 AUTHENTICATING, ConnectionStateCb 1 CONNECTED]\<rparr>"
  by (simp add: ex_ws_activating_def ex_ws_refreshed_eq ws_defs Let_def numeral_2_eq_2)

text \<open>
  Claim C2 at a concrete input. The facade is connected over the push transport and
  activates \<^verbatim>\<open>scene.movie_night\<close>. The record is stored and the scene call is sent as
  message 2 with promise 2. The controller rejects the call. The transport calls the
  error observer, so the facade's error string holds the message, but the promise of
  the call stays pending. The activation therefore never leaves the await of the
  call: its \<^verbatim>\<open>catch\<close> block does not run, the record is not discarded and the scene
  stays active.
\<close>

theorem rejected_activation_stays_active:
  "fst (ws_callService ''scene'' ''turn_on'' [(''entity_id'', JStr ''scene.movie_night'')]
          ex_ws_refreshed) = 2
   \<and> pendingCommands ex_ws_activating 2 = Some 2
   \<and> promises ex_ws_activating ! 2 = Pending
   \<and> promises (handleMessage (Inr ex_scene_rejection) 0 ex_ws_activating) ! 2 = Pending
   \<and> pendingCommands (handleMessage (Inr ex_scene_rejection) 0 ex_ws_activating) 2 = None
   \<and> notified (handleMessage (Inr ex_scene_rejection) 0 ex_ws_activating) =
       notified ex_ws_activating @ [ErrorCb 2 ''Command failed: Unable to apply scene'']
   \<and> activeScenes
        (facade_handleApiError ''Command failed: Unable to apply scene''
           (activateSceneAwaiting ''scene.movie_night'' ex_env_ok
              (promises (handleMessage (Inr ex_scene_rejection) 0 ex_ws_activating) ! 2) ex_app))
        ''scene.movie_night'' =
       Some \<lparr>as_sceneId = ''scene.movie_night'',
             as_originalStates =
               [\<lparr>es_entityId = ''light.lamp'', es_state = ''on'',
                 es_attributes = [(''brightness'', JNum 180)]\<rparr>,
                \<lparr>es_entityId = ''switch.fan'', es_state = ''off'',
                 es_attributes = [(''friendly_name'', JStr ''Fan'')]\<rparr>]\<rparr>
   \<and> isSceneActive
        (facade_handleApiError ''Command failed: Unable to apply scene''
           (activateSceneAwaiting ''scene.movie_night'' ex_env_ok
              (promises (handleMessage (Inr ex_scene_rejection) 0 ex_ws_activating) ! 2) ex_app))
        ''scene.movie_night''
   \<and> error
        (facade_handleApiError ''Command failed: Unable to apply scene''
           (activateSceneAwaiting ''scene.movie_night'' ex_env_ok
              (promises (handleMessage (Inr ex_scene_rejection) 0 ex_ws_activating) ! 2) ex_app)) =
       Some ''Command failed: Unable to apply scene''
   \<and> trace
        (facade_handleApiError ''Command failed: Unable to apply scene''
           (activateSceneAwaiting ''scene.movie_night'' ex_env_ok
              (promises (handleMessage (Inr ex_scene_rejection) 0 ex_ws_activating) ! 2) ex_app)) =
       [ApiGetStates,
        SetActiveScene ''scene.movie_night''
          \<lparr>as_sceneId = ''scene.movie_night'',
           as_originalStates =
             [\<lparr>es_entityId = ''light.lamp'', es_state = ''on'',
               es_attributes = [(''brightness'', JNum 180)]\<rparr>,
              \<lparr>es_entityId = ''switch.fan'', es_state = ''off'',
               es_attributes = [(''friendly_name'', JStr ''Fan'')]\<rparr>]\<rparr>,
        ApiCallService ''scene'' ''turn_on'' [(''entity_id'', JStr ''scene.movie_night'')],
        ConsoleError ''Home Assistant API error:'' ''Command failed: Unable to apply scene'']"
proof -
  have call: "fst (ws_callService ''scene'' ''turn_on'' [(''entity_id'', JStr ''scene.movie_night'')]
          ex_ws_refreshed) = 2"
    by (simp add: ex_ws_refreshed_eq ws_defs Let_def)
  have pend: "promises (handleMessage (Inr ex_scene_rejection) 0 ex_ws_activating) ! 2 = Pending"
    by (simp add: ex_ws_activating_eq ex_scene_rejection_def ws_defs)
  have transport: "pendingCommands ex_ws_activating 2 = Some 2"
    "promises ex_ws_activating ! 2 = Pending"
    "pendingCommands (handleMessage (Inr ex_scene_rejection) 0 ex_ws_activating) 2 = None"
    "notified (handleMessage (Inr ex_scene_rejection) 0 ex_ws_activating) =
       notified ex_ws_activating @ [ErrorCb 2 ''Command failed: Unable to apply scene'']"
    by (simp_all add: ex_ws_activating_eq ex_scene_rejection_def ws_defs)
  have api: "api ex_app"
    by (simp add: ex_defs)
  have run: "activateSceneAwaiting ''scene.movie_night'' ex_env_ok Pending ex_app =
      (case activatePrepared ''scene.movie_night'' ex_env_ok ex_app of
         Inl (m, s) \<Rightarrow> activateFailed ''scene.movie_night'' m s
       | Inr s3 \<Rightarrow> s3\<lparr>trace := trace s3 @
            [ApiCallService ''scene'' ''turn_on'' [(''entity_id'', JStr ''scene.movie_night'')]]\<rparr>)"
    by (simp add: activateSceneAwaiting_def awaited_def activateSceneUnsettled_def
        callServiceIssued_def api split: sum.splits)
  show ?thesis
    unfolding pend run ex_prepared
    using call transport by (simp add: facade_handleApiError_def isSceneActive_def)
qed

subsection \<open>The handshake\<close>

text \<open>
  Claim C5. When the transport receives \<^verbatim>\<open>auth_invalid\<close> during the handshake, that is
  while the promise of \<^verbatim>\<open>connect()\<close> is pending, the connection state becomes Error, the
  promise is rejected with the authentication error, which carries the message of
  the controller, and the error observers are called with the same error.
\<close>

theorem auth_invalid_rejects_connect:
  assumes "p < length (promises s)" and "promises s ! p = Pending"
  shows "connectionState (handleMessage (Inr (AuthInvalid m)) p s) = ERROR
     \<and> promises (handleMessage (Inr (AuthInvalid m)) p s) ! p = Rejected (''Authentication failed: '' @ m)
     \<and> notified (handleMessage (Inr (AuthInvalid m)) p s) =
         notified (updateConnectionState ERROR s)
           @ map (\<lambda>cb. ErrorCb cb (''Authentication failed: '' @ m)) (errorCallbacks s)"
  using assms by (simp add: handleMessage_def rejectPromise_def settle_def)

theorem auth_invalid_rejects_connect_witness:
  "promises ex_ws_handshake ! 0 = Pending
   \<and> connectionState (handleMessage (Inr (AuthInvalid ''Invalid access token'')) 0 ex_ws_handshake) = ERROR
   \<and> promises (handleMessage (Inr (AuthInvalid ''Invalid access token'')) 0 ex_ws_handshake) ! 0 =
       Rejected ''Authentication failed: Invalid access token''"
proof -
  have h1: "0 < length (promises ex_ws_handshake)" and h2: "promises ex_ws_handshake ! 0 = Pending"
    by (simp_all add: ex_ws_handshake_eq)
  from auth_invalid_rejects_connect [OF h1 h2, of "''Invalid access token''"] h2 show ?thesis
    by simp
qed

subsection \<open>Reconnection\<close>

lemma connect_attempts [simp]: "reconnectAttempts (snd (connect ce s)) = reconnectAttempts s"
  by (simp add: connect_def newPromise_def Let_def resolvePromise_def rejectPromise_def split: option.splits)

lemma failedAttempt_attempts [simp]:
  "reconnectAttempts (failedAttempt e s) = Suc (reconnectAttempts s)"
  by (simp add: failedAttempt_def socketClosed_def onerror_def rejectPromise_def reconnectTimerFired_def)

lemma failedAttempts_attempts [simp]:
  "reconnectAttempts (failedAttempts n e s) = n + reconnectAttempts s"
  by (induction n) (simp_all add: failedAttempts_def)

lemma failedAttempts_Suc: "failedAttempts (Suc n) e s = failedAttempt e (failedAttempts n e s)"
  by (simp add: failedAttempts_def)

lemma failedAttempt_unfold:
  "failedAttempt e s = socketClosed (onerror e (fst (reconnectTimerFired None s)) (snd (reconnectTimerFired None s)))"
  by (simp add: failedAttempt_def)

lemma pre_close_attempts:
  "reconnectAttempts (onerror e p (snd (reconnectTimerFired ce s))) = Suc (reconnectAttempts s)"
  by (simp add: onerror_def rejectPromise_def reconnectTimerFired_def)

lemma attempts_reset_on_open:
  "reconnectAttempts (socketOpened s) = 0"
  "reconnectAttempts (handleMessage parsed p s) = reconnectAttempts s"
  "reconnectAttempts (snd (sendCommand command params s)) = reconnectAttempts s"
  by (auto simp add: socketOpened_def onopen_def setupHeartbeat_def clearTimers_def handleMessage_def
      authenticate_def resolvePromise_def rejectPromise_def handleResult_def handleEvent_def
      sendCommand_def newPromise_def Let_def split: sum.splits ws_message.splits option.splits)

lemma messages_keep_attempts:
  "reconnectAttempts (foldl (\<lambda>t parsed. onmessage parsed p t) s msgs) = reconnectAttempts s"
  by (induction msgs arbitrary: s) (simp_all add: onmessage_def attempts_reset_on_open)

lemma openedAttempt_restarts:
  "reconnectTimer (openedAttempt msgs s) = Some 1000
   \<and> connectionState (openedAttempt msgs s) = RECONNECTING
   \<and> reconnectAttempts (openedAttempt msgs s) = 0"
proof -
  let ?p = "fst (reconnectTimerFired None s)"
  let ?u = "foldl (\<lambda>t parsed. onmessage parsed ?p t) (socketOpened (snd (reconnectTimerFired None s))) msgs"
  have "reconnectAttempts ?u = 0"
    by (simp add: messages_keep_attempts attempts_reset_on_open)
  with socketClosed_retry [of ?u] show ?thesis
    by (simp add: openedAttempt_def)
qed

lemma openedAttempts_Suc:
  "openedAttempts (Suc n) msgs s = openedAttempt msgs (openedAttempts n msgs s)"
  by (simp add: openedAttempts_def)

lemma ex_ws_reconnecting_eq:
  "socketClosed ex_ws_connected =
     \<lparr>baseUrl = ''http://ha.local:8123'', accessToken = ''token'', socket = Some RS_CLOSED,
      connectionState = RECONNECTING, messageId = 1, pendingCommands = Map.empty,
      stateChangedCallbacks = [], connectionStateCallbacks = [1], errorCallbacks = [2],
      reconnectTimer = Some 1000, heartbeatTimer = None, reconnectAttempts = 0,
      promises = [Fulfilled None], sent = [OutAuth ''token''],
      notified = [ConnectionStateCb 1 CLOSED, ConnectionStateCb 1 CONNECTING,
                  ConnectionStateCb 1 AUTHENTICATING, ConnectionStateCb 1 CONNECTED,
                  ConnectionStateCb 1 CLOSED, ConnectionStateCb 1 RECONNECTING]\<rparr>"
  by (simp add: ex_ws_connected_eq socketClosed_def onclose_def attemptReconnect_def
      updateConnectionState_def clearTimers_def maxReconnectAttempts_def reconnectDelay_def)

text \<open>
  Claim C6, as stated, fails for attempts whose socket opens. The connected transport
  loses its socket; every reconnection attempt opens a socket, is asked to
  authenticate, has its credential rejected and is closed. After the first such
  attempt its \<^verbatim>\<open>connect()\<close> promise is rejected, and the next attempt is scheduled after
  1000 ms, not 2000 ms. After five of them the transport is Reconnecting with a timer
  of 1000 ms pending, not in the Error state.
\<close>

theorem reconnect_counter_reset_counterexample:
  "promises (openedAttempts 1 ex_auth_rejected (socketClosed ex_ws_connected)) ! 1 =
     Rejected ''Authentication failed: Invalid access token''
   \<and> reconnectTimer (openedAttempts 1 ex_auth_rejected (socketClosed ex_ws_connected)) = Some 1000
   \<and> connectionState (openedAttempts 5 ex_auth_rejected (socketClosed ex_ws_connected)) = RECONNECTING
   \<and> reconnectTimer (openedAttempts 5 ex_auth_rejected (socketClosed ex_ws_connected)) = Some 1000"
proof -
  have one: "openedAttempts 1 ex_auth_rejected (socketClosed ex_ws_connected) =
      openedAttempt ex_auth_rejected (socketClosed ex_ws_connected)"
    by (simp add: openedAttempts_def)
  have five: "openedAttempts 5 ex_auth_rejected (socketClosed ex_ws_connected) =
      openedAttempt ex_auth_rejected (openedAttempts 4 ex_auth_rejected (socketClosed ex_ws_connected))"
    using openedAttempts_Suc [of 4] by simp
  let ?t = "snd (reconnectTimerFired None (socketClosed ex_ws_connected))"
  have p: "fst (reconnectTimerFired None (socketClosed ex_ws_connected)) = 1"
    by (simp add: ex_ws_reconnecting_eq reconnectTimerFired_def connect_def newPromise_def Let_def)
  have t: "promises ?t = [Fulfilled None, Pending]"
    by (simp add: ex_ws_reconnecting_eq reconnectTimerFired_def connect_def newPromise_def Let_def)
  have o: "promises (socketOpened ?t) = [Fulfilled None, Pending]"
    by (simp add: socketOpened_def onopen_def setupHeartbeat_def clearTimers_def t)
  have a: "promises (onmessage (Inr AuthRequired) 1 (socketOpened ?t)) = [Fulfilled None, Pending]"
    by (simp add: onmessage_def handleMessage_def authenticate_def o)
  have i: "promises (onmessage (Inr (AuthInvalid ''Invalid access token'')) 1
             (onmessage (Inr AuthRequired) 1 (socketOpened ?t))) =
      [Fulfilled None, Rejected ''Authentication failed: Invalid access token'']"
    unfolding onmessage_def [of "Inr (AuthInvalid ''Invalid access token'')"]
    using a by (simp add: handleMessage_def rejectPromise_def settle_def)
  have c: "promises (socketClosed u) = promises u" for u
    by (simp add: socketClosed_def onclose_def attemptReconnect_def)
  have rejected: "promises (openedAttempt ex_auth_rejected (socketClosed ex_ws_connected)) ! 1 =
     Rejected ''Authentication failed: Invalid access token''"
    using i by (simp add: openedAttempt_def ex_auth_rejected_def p c)
  show ?thesis
    unfolding one five using rejected by (simp add: openedAttempt_restarts)
qed

text \<open>
  Claim C6, amended. The count of failed attempts is the count of attempts since the
  last socket that opened. The socket of a transport closes unexpectedly with that
  count at 0. After \<open>n\<close> attempts whose socket reported an error and closed without
  opening, for \<open>n\<close> below 5, the transport is Reconnecting and the next attempt is
  scheduled after \<open>1000 * 2 ^ n\<close> milliseconds: 1 s, 2 s, 4 s, 8 s, 16 s, with nothing
  added. After the fifth such attempt in a row the transport is in the Error state
  and no timer is pending, so nothing retries. An attempt whose socket opens sets the
  count back to 0: when that socket closes, whatever arrived on it, the transport is
  Reconnecting and the next attempt is scheduled after 1000 milliseconds.
\<close>

theorem reconnect_backoff:
  assumes fresh: "reconnectAttempts s = 0"
  shows "(\<forall>n<5. reconnectTimer (failedAttempts n e (socketClosed s)) = Some (1000 * 2 ^ n)
              \<and> connectionState (failedAttempts n e (socketClosed s)) = RECONNECTING)
     \<and> connectionState (failedAttempts 5 e (socketClosed s)) = ERROR
     \<and> reconnectTimer (failedAttempts 5 e (socketClosed s)) = None
     \<and> heartbeatTimer (failedAttempts 5 e (socketClosed s)) = None
     \<and> reconnectAttempts (openedAttempt msgs t) = 0
     \<and> reconnectTimer (openedAttempt msgs t) = Some 1000
     \<and> connectionState (openedAttempt msgs t) = RECONNECTING"
proof -
  have step: "reconnectTimer (failedAttempts n e (socketClosed s)) = Some (1000 * 2 ^ n)
              \<and> connectionState (failedAttempts n e (socketClosed s)) = RECONNECTING" if "n < 5" for n
  proof (cases n)
    case 0
    then show ?thesis
      using socketClosed_retry [of s] fresh by (simp add: failedAttempts_def)
  next
    case (Suc k)
    let ?t = "failedAttempts k e (socketClosed s)"
    let ?u = "onerror e (fst (reconnectTimerFired None ?t)) (snd (reconnectTimerFired None ?t))"
    have "reconnectAttempts ?u = n"
      using fresh Suc by (simp add: pre_close_attempts)
    with that socketClosed_retry [of ?u] show ?thesis
      by (simp add: Suc failedAttempts_Suc failedAttempt_unfold)
  qed
  let ?t = "failedAttempts 4 e (socketClosed s)"
  let ?u = "onerror e (fst (reconnectTimerFired None ?t)) (snd (reconnectTimerFired None ?t))"
  have five: "failedAttempts 5 e (socketClosed s) = socketClosed ?u"
    using failedAttempts_Suc [of 4 e "socketClosed s"] by (simp add: failedAttempt_unfold)
  have "reconnectAttempts ?u = 5"
    using fresh by (simp add: pre_close_attempts)
  with socketClosed_exhausted [of ?u] five step openedAttempt_restarts [of msgs t] show ?thesis
    by simp
qed

theorem reconnect_backoff_witness:
  "reconnectAttempts ex_ws_connected = 0
   \<and> reconnectTimer (failedAttempts 0 ''[object Event]'' (socketClosed ex_ws_connected)) = Some 1000
   \<and> reconnectTimer (failedAttempts 1 ''[object Event]'' (socketClosed ex_ws_connected)) = Some 2000
   \<and> reconnectTimer (failedAttempts 2 ''[object Event]'' (socketClosed ex_ws_connected)) = Some 4000
   \<and> reconnectTimer (failedAttempts 3 ''[object Event]'' (socketClosed ex_ws_connected)) = Some 8000
   \<and> reconnectTimer (failedAttempts 4 ''[object Event]'' (socketClosed ex_ws_connected)) = Some 16000
   \<and> connectionState (failedAttempts 5 ''[object Event]'' (socketClosed ex_ws_connected)) = ERROR
   \<and> reconnectTimer (failedAttempts 5 ''[object Event]'' (socketClosed ex_ws_connected)) = None
   \<and> reconnectTimer
        (openedAttempt ex_auth_rejected
           (failedAttempts 4 ''[object Event]'' (socketClosed ex_ws_connected))) = Some 1000"
proof -
  have h: "reconnectAttempts ex_ws_connected = 0"
    by (simp add: ex_ws_connected_eq)
  have n: "(0::nat) < 5" "(1::nat) < 5" "(2::nat) < 5" "(3::nat) < 5" "(4::nat) < 5"
    by simp_all
  from reconnect_backoff
         [OF h, of "''[object Event]''" ex_auth_rejected
            "failedAttempts 4 ''[object Event]'' (socketClosed ex_ws_connected)"] n h
  show ?thesis
    by (auto simp del: One_nat_def)
qed

section \<open>Pull transport\<close>

subsection \<open>One poll cycle\<close>

lemma pollStep_fields [simp]:
  "connected (pollStep r e) = connected r"
  "entityCallbacks (pollStep r e) = entityCallbacks r"
  by (simp_all add: pollStep_def Let_def)

lemma pollStep_lastStates_other:
  "entity_id e \<noteq> k \<Longrightarrow> lastStates (pollStep r e) k = lastStates r k"
  by (simp add: pollStep_def Let_def)

lemma pollStep_notified:
  "rest_notified (pollStep r e) = rest_notified r @ changeCalls r e"
  by (simp add: pollStep_def changeCalls_def Let_def)

lemma changeCalls_cong:
  "lastStates r' (entity_id e) = lastStates r (entity_id e) \<Longrightarrow> entityCallbacks r' = entityCallbacks r
    \<Longrightarrow> changeCalls r' e = changeCalls r e"
  by (simp add: changeCalls_def)

lemma foldl_pollStep_notified:
  "distinct (map entity_id es) \<Longrightarrow>
   rest_notified (foldl pollStep r es) = rest_notified r @ concat (map (changeCalls r) es)"
proof (induction es arbitrary: r)
  case Nil
  then show ?case by simp
next
  case (Cons e es)
  have m: "map (changeCalls (pollStep r e)) es = map (changeCalls r) es"
  proof (rule map_cong [OF refl])
    fix x assume "x \<in> set es"
    with Cons.prems have "entity_id e \<noteq> entity_id x" by auto
    then show "changeCalls (pollStep r e) x = changeCalls r x"
      by (intro changeCalls_cong) (simp_all add: pollStep_lastStates_other)
  qed
  from Cons.prems have "distinct (map entity_id es)"
    by simp
  then have "rest_notified (foldl pollStep (pollStep r e) es) =
      rest_notified (pollStep r e) @ concat (map (changeCalls (pollStep r e)) es)"
    by (rule Cons.IH)
  then show ?case
    by (simp only: foldl_Cons m pollStep_notified list.map concat.simps append_assoc)
qed

lemma foldl_pollStep_fields [simp]:
  "connected (foldl pollStep r es) = connected r"
  "entityCallbacks (foldl pollStep r es) = entityCallbacks r"
  by (induction es arbitrary: r) simp_all

lemma foldl_pollStep_lastStates_other:
  "k \<notin> entity_id ` set es \<Longrightarrow> lastStates (foldl pollStep r es) k = lastStates r k"
  by (induction es arbitrary: r) (auto simp add: pollStep_lastStates_other)

lemma pollStep_observed:
  "\<exists>old. lastStates (pollStep r e) (entity_id e) = Some old \<and> state old = state e
     \<and> stringify (JObj (attributes old)) = stringify (JObj (attributes e))"
  by (auto simp add: pollStep_def Let_def noChange_def split: option.splits)

lemma foldl_pollStep_observed:
  "distinct (map entity_id es) \<Longrightarrow> e \<in> set es \<Longrightarrow>
   \<exists>old. lastStates (foldl pollStep r es) (entity_id e) = Some old \<and> state old = state e
     \<and> stringify (JObj (attributes old)) = stringify (JObj (attributes e))"
proof (induction es arbitrary: r)
  case Nil
  then show ?case by simp
next
  case (Cons x es)
  show ?case
  proof (cases "e = x")
    case True
    with Cons.prems have "entity_id e \<notin> entity_id ` set es" by auto
    then have "lastStates (foldl pollStep (pollStep r x) es) (entity_id e) = lastStates (pollStep r x) (entity_id e)"
      by (rule foldl_pollStep_lastStates_other)
    with pollStep_observed [of r x] True show ?thesis by simp
  next
    case False
    with Cons show ?thesis by auto
  qed
qed

text \<open>
  Claim C8. The adapter is connected and has a listener, and a poll returns each
  entity once. Then the poll calls the listeners exactly for the entities whose
  comparison with the last observed value differs (the state differs, or the
  serialized attributes differ, or the entity was never observed), in the order of
  the reply, each call with the id, the whole new entity and the last observed value
  or null. A second poll returning for every entity the same state and the same
  serialized attributes calls no listener at all.
\<close>

theorem poll_notifies_only_changes:
  assumes conn: "connected r" and subs: "entityCallbacks r \<noteq> []"
    and ids: "distinct (map entity_id es)"
    and same: "list_all2 (\<lambda>e e'. entity_id e' = entity_id e \<and> noChange (Some e) e') es es'"
  shows "rest_notified (pollEntities (Inr es) r) =
           rest_notified r
             @ concat (map (\<lambda>e. if noChange (lastStates r (entity_id e)) e then []
                                 else map (\<lambda>cb. StateChangedCb cb (entity_id e) (Some e)
                                                   (lastStates r (entity_id e)))
                                        (entityCallbacks r)) es)
     \<and> rest_notified (pollEntities (Inr es') (pollEntities (Inr es) r)) =
         rest_notified (pollEntities (Inr es) r)"
proof -
  let ?r1 = "foldl pollStep r es"
  have p1: "pollEntities (Inr es) r = ?r1"
    using conn subs by (simp add: pollEntities_def)
  have first: "rest_notified ?r1 = rest_notified r @ concat (map (changeCalls r) es)"
    using ids by (rule foldl_pollStep_notified)
  have ids_eq: "map entity_id es' = map entity_id es"
    using same by (induction rule: list_all2_induct) simp_all
  then have ids': "distinct (map entity_id es')"
    using ids by simp
  have p2: "pollEntities (Inr es') ?r1 = foldl pollStep ?r1 es'"
    using conn subs by (simp add: pollEntities_def)
  have quiet: "changeCalls ?r1 e' = []" if "e' \<in> set es'" for e'
  proof -
    from that obtain i where i: "i < length es'" "e' = es' ! i"
      by (auto simp add: in_set_conv_nth)
    from same have len: "length es = length es'"
      by (rule list_all2_lengthD)
    from same i(1)
    have "entity_id (es' ! i) = entity_id (es ! i) \<and> noChange (Some (es ! i)) (es' ! i)"
      by (rule list_all2_nthD2)
    with i len have "es ! i \<in> set es" "entity_id e' = entity_id (es ! i)" "noChange (Some (es ! i)) e'"
      by simp_all
    then obtain e where e: "e \<in> set es" "entity_id e' = entity_id e" "noChange (Some e) e'"
      by blast
    from foldl_pollStep_observed [OF ids e(1), of r]
    obtain old where "lastStates ?r1 (entity_id e) = Some old" "state old = state e"
      "stringify (JObj (attributes old)) = stringify (JObj (attributes e))"
      by blast
    with e(2,3) show ?thesis
      by (simp add: changeCalls_def noChange_def)
  qed
  then have "concat (map (changeCalls ?r1) es') = []"
    by simp
  with foldl_pollStep_notified [OF ids', of ?r1]
  have second: "rest_notified (foldl pollStep ?r1 es') = rest_notified ?r1"
    by simp
  from first second show ?thesis
    by (simp add: p1 p2 changeCalls_def [abs_def])
qed

theorem poll_notifies_only_changes_witness:
  "connected ex_rest \<and> entityCallbacks ex_rest \<noteq> []
   \<and> rest_notified (pollEntities (Inr [ex_lamp, ex_fan]) ex_rest) =
       [StateChangedCb 1 ''light.lamp'' (Some ex_lamp) None,
        StateChangedCb 1 ''switch.fan'' (Some ex_fan) None]
   \<and> rest_notified (pollEntities (Inr [ex_lamp_refetched, ex_fan])
                       (pollEntities (Inr [ex_lamp, ex_fan]) ex_rest)) =
       [StateChangedCb 1 ''light.lamp'' (Some ex_lamp) None,
        StateChangedCb 1 ''switch.fan'' (Some ex_fan) None]"
proof -
  have eq: "ex_rest = \<lparr>connected = True, pollingInterval = Some 3000, entityCallbacks = [1],
      connectionCallbacks = [], rest_errorCallbacks = [], lastStates = Map.empty, rest_notified = []\<rparr>"
    by (simp add: ex_rest_def rest_connect_def rest_subscribeToEntities_def newRestApiAdapter_def
        rest_notifyConnectionState_def startPolling_def pollingFrequency_def Let_def)
  have h1: "connected ex_rest" and h2: "entityCallbacks ex_rest \<noteq> []"
    by (simp_all add: eq)
  have h3: "distinct (map entity_id [ex_lamp, ex_fan])"
    by (simp add: ex_defs)
  have h4: "list_all2 (\<lambda>e e'. entity_id e' = entity_id e \<and> noChange (Some e) e')
              [ex_lamp, ex_fan] [ex_lamp_refetched, ex_fan]"
    by (simp add: ex_lamp_refetched_def noChange_def)
  from poll_notifies_only_changes [OF h1 h2 h3 h4] h1 h2 show ?thesis
    by (simp add: eq noChange_def ex_lamp_def ex_fan_def)
qed

section \<open>Disconnecting twice\<close>

lemma disconnect_idem: "disconnect (disconnect s) = disconnect s"
  by (simp add: disconnect_def updateConnectionState_def clearTimers_def)

lemma rest_disconnect_fields:
  "connected (rest_disconnect r) = False"
  "filter isErrorCb (rest_notified (rest_disconnect r)) = filter isErrorCb (rest_notified r)"
  by (simp_all add: rest_disconnect_def rest_notifyConnectionState_def filter_map o_def)

text \<open>
  Claim C9. For both transports, calling \<^verbatim>\<open>disconnect()\<close> twice in a row leaves the
  connection state Closed after the first call and after the second, and neither call
  produces an error: no error observer is called and, on the push transport, no
  promise changes. On the push transport the second call changes nothing at all.
\<close>

theorem disconnect_twice:
  "getConnectionState (disconnect s) = CLOSED
   \<and> getConnectionState (disconnect (disconnect s)) = CLOSED
   \<and> filter isErrorCb (notified (disconnect (disconnect s))) = filter isErrorCb (notified s)
   \<and> promises (disconnect (disconnect s)) = promises s
   \<and> disconnect (disconnect s) = disconnect s
   \<and> rest_getConnectionState (rest_disconnect r) = CLOSED
   \<and> rest_getConnectionState (rest_disconnect (rest_disconnect r)) = CLOSED
   \<and> filter isErrorCb (rest_notified (rest_disconnect (rest_disconnect r))) = filter isErrorCb (rest_notified r)"
proof -
  have n: "filter isErrorCb (notified (disconnect s)) = filter isErrorCb (notified s)"
    by (simp add: disconnect_def updateConnectionState_def filter_map o_def)
  have c: "connectionState (disconnect s) = CLOSED" "promises (disconnect s) = promises s"
    by (simp_all add: disconnect_def)
  show ?thesis
    by (simp add: disconnect_idem n c getConnectionState_def
        rest_getConnectionState_def rest_disconnect_fields)
qed

theorem disconnect_twice_witness:
  "getConnectionState ex_ws_inflight = CONNECTED
   \<and> getConnectionState (disconnect ex_ws_inflight) = CLOSED
   \<and> getConnectionState (disconnect (disconnect ex_ws_inflight)) = CLOSED
   \<and> filter isErrorCb (notified (disconnect (disconnect ex_ws_inflight))) = []
   \<and> rest_getConnectionState ex_rest = CONNECTED
   \<and> rest_getConnectionState (rest_disconnect ex_rest) = CLOSED
   \<and> rest_getConnectionState (rest_disconnect (rest_disconnect ex_rest)) = CLOSED
   \<and> filter isErrorCb (rest_notified (rest_disconnect (rest_disconnect ex_rest))) = []"
proof -
  have w: "getConnectionState ex_ws_inflight = CONNECTED"
    "filter isErrorCb (notified ex_ws_inflight) = []"
    by (simp_all add: ex_ws_inflight_eq getConnectionState_def)
  have "connected ex_rest" and "rest_notified ex_rest = []"
    by (simp_all add: ex_rest_def rest_connect_def rest_subscribeToEntities_def
        newRestApiAdapter_def rest_notifyConnectionState_def startPolling_def Let_def)
  then have r: "rest_getConnectionState ex_rest = CONNECTED"
    "filter isErrorCb (rest_notified ex_rest) = []"
    by (simp_all add: rest_getConnectionState_def)
  note twice = disconnect_twice [of ex_ws_inflight ex_rest, unfolded w r]
  from twice w r show ?thesis
    by blast
qed

end
